theory Spec2Isabelle
  imports Complex_Main "HOL-Library.AList" "HOL-Library.Sublist"
begin

section \<open>The AI Verse to YOLO converter (convert.py)\<close>

text \<open>
  A shallow embedding of \<^verbatim>\<open>src/convert.py\<close>. Python floats are idealised as
  real numbers. In the annotation document an absent key and a JSON null are both
  \<open>None\<close> (\<^verbatim>\<open>dict.get\<close> returns None for either), label fields are strings and
  image ids are values of an arbitrary type compared with HOL equality. The bbox of an
  instance is an arbitrary JSON value, since the code tests its truth value and its
  length and converts its elements with \<^verbatim>\<open>float\<close>. Every \<^verbatim>\<open>raise\<close> of the
  source, and the errors the interpreter raises on a division by zero, on
  \<^verbatim>\<open>len\<close> and on \<^verbatim>\<open>float\<close>, are values of the type \<open>error\<close>. Strings are
  lists of characters, one per code point of the Python string.
\<close>

datatype error = RuntimeError | FileNotFoundError | ZeroDivisionError | IndexError | KeyError
  | TypeError | ValueError

subsection \<open>JSON values\<close>

text \<open>
  What \<^verbatim>\<open>json.loads\<close> returns, with numbers as reals and an object as the list of its
  keys and values.
\<close>

datatype json = JNull | JBool bool | JNum real | JStr string | JArr "json list"
  | JObj "(string \<times> json) list"

text \<open>The truth value of a JSON value: \<^verbatim>\<open>not v\<close> is its negation.\<close>

fun json_truthy :: "json \<Rightarrow> bool" where
  "json_truthy JNull = False"
| "json_truthy (JBool b) = b"
| "json_truthy (JNum r) = (r \<noteq> 0)"
| "json_truthy (JStr s) = (s \<noteq> [])"
| "json_truthy (JArr xs) = (xs \<noteq> [])"
| "json_truthy (JObj kvs) = (kvs \<noteq> [])"

text \<open>\<^verbatim>\<open>len(v)\<close>: a TypeError for null, booleans and numbers.\<close>

fun json_len :: "json \<Rightarrow> error + nat" where
  "json_len (JStr s) = Inr (length s)"
| "json_len (JArr xs) = Inr (length xs)"
| "json_len (JObj kvs) = Inr (length kvs)"
| "json_len v = Inl TypeError"

text \<open>
  What iterating over a value yields, as the unpacking of line 225 does: the elements of
  an array, the characters of a string, the keys of an object.
\<close>

fun json_items :: "json \<Rightarrow> json list" where
  "json_items (JArr xs) = xs"
| "json_items (JStr s) = map (\<lambda>c. JStr [c]) s"
| "json_items (JObj kvs) = map (\<lambda>kv. JStr (fst kv)) kvs"
| "json_items v = []"

text \<open>
  \<^verbatim>\<open>float(v)\<close>: a number is itself, a boolean is 1 or 0, a string is parsed (the
  parser of the runtime is the parameter, None where it raises ValueError), and null,
  arrays and objects are a TypeError.
\<close>

fun json_float :: "(string \<Rightarrow> real option) \<Rightarrow> json \<Rightarrow> error + real" where
  "json_float parse (JNum r) = Inr r"
| "json_float parse (JBool b) = Inr (if b then 1 else 0)"
| "json_float parse (JStr s) = (case parse s of Some r \<Rightarrow> Inr r | None \<Rightarrow> Inl ValueError)"
| "json_float parse v = Inl TypeError"

subsection \<open>yolo\_bbox\<close>

definition yolo_bbox ::
  "real \<Rightarrow> real \<Rightarrow> real \<Rightarrow> real \<Rightarrow> real \<Rightarrow> real \<Rightarrow> error + (real \<times> real \<times> real \<times> real)" where
  "yolo_bbox xmin ymin xmax ymax w h =
    (let xmin = max 0 (min xmin (w - 1));
         xmax = max 0 (min xmax (w - 1));
         ymin = max 0 (min ymin (h - 1));
         ymax = max 0 (min ymax (h - 1));
         bw = max 0 (xmax - xmin);
         bh = max 0 (ymax - ymin);
         cx = xmin + bw / 2;
         cy = ymin + bh / 2
     in if w = 0 \<or> h = 0 then Inl ZeroDivisionError
        else Inr (cx / w, cy / h, bw / w, bh / h))"

subsection \<open>label\_from\_instance\<close>

record 'i instance_entry =
  image_id :: "'i option"
  class_field :: "string option"
  subclass_field :: "string option"
  superclass_field :: "string option"
  path_field :: "string option"
  bbox :: "json option"

text \<open>Python truthiness of an optional string: neither None nor the empty string.\<close>

definition truthy :: "string option \<Rightarrow> bool" where
  "truthy s = (case s of None \<Rightarrow> False | Some v \<Rightarrow> v \<noteq> [])"

text \<open>\<^verbatim>\<open>p.split("/")[-1]\<close>: what follows the last slash of \<open>p\<close>.\<close>

definition split_last :: "string \<Rightarrow> string" where
  "split_last p = rev (takeWhile (\<lambda>c. c \<noteq> CHR ''/'') (rev p))"

definition label_from_instance :: "('i, 'x) instance_entry_scheme \<Rightarrow> string \<Rightarrow> string option" where
  "label_from_instance inst mode =
    (if mode = ''class'' then class_field inst
     else if mode = ''subclass'' then subclass_field inst
     else if mode = ''superclass'' then superclass_field inst
     else if mode = ''path'' then
       (case path_field inst of Some p \<Rightarrow> Some (split_last p) | None \<Rightarrow> None)
     else if mode = ''class_subclass'' then
       (let c = class_field inst; s = subclass_field inst
        in if truthy c \<and> truthy s
           then (case (c, s) of (Some cv, Some sv) \<Rightarrow> Some (cv @ ''/'' @ sv) | _ \<Rightarrow> None)
           else if truthy c then c else s)
     else None)"

subsection \<open>Paths and the input file system\<close>

text \<open>
  A path is the list of its components, as \<^verbatim>\<open>PurePosixPath.parts\<close> gives them; an
  absolute path starts with the component \<open>''/''\<close>.
\<close>

type_synonym path = "string list"

fun split_on :: "char \<Rightarrow> string \<Rightarrow> string list" where
  "split_on c [] = [[]]"
| "split_on c (x # xs) =
    (if x = c then [] # split_on c xs
     else (case split_on c xs of y # ys \<Rightarrow> (x # y) # ys | [] \<Rightarrow> [[x]]))"

definition parts :: "string \<Rightarrow> path" where
  "parts s = (if s \<noteq> [] \<and> hd s = CHR ''/'' then [''/''] else []) @
             filter (\<lambda>c. c \<noteq> [] \<and> c \<noteq> ''.'') (split_on (CHR ''/'') s)"

text \<open>\<^verbatim>\<open>p / q\<close>: an absolute right operand replaces the left one.\<close>

definition pjoin :: "path \<Rightarrow> path \<Rightarrow> path" where
  "pjoin p q = (case q of [] \<Rightarrow> p | c # cs \<Rightarrow> if c = ''/'' then q else p @ q)"

definition pname :: "path \<Rightarrow> string" where
  "pname p = (if p = [] \<or> last p = ''/'' then [] else last p)"

text \<open>\<^verbatim>\<open>Path(name).stem\<close>: the name up to its last dot, unless that dot is the first or
  the last character.\<close>

definition stem :: "string \<Rightarrow> string" where
  "stem name =
    (let suffix_len = length (takeWhile (\<lambda>c. c \<noteq> CHR ''.'') (rev name))
     in if CHR ''.'' \<in> set name \<and> 0 < suffix_len \<and> suffix_len + 1 < length name
        then take (length name - suffix_len - 1) name else name)"

text \<open>
  What the converter asks of the input tree and of the runtime: whether a path exists,
  the matches of a glob pattern in a directory (in listing order), the bytes of a
  file, the pixel size of an image as the imaging library reports it (None when it
  fails or is not installed), and the float a string denotes (None when
  \<^verbatim>\<open>float\<close> raises ValueError on it).
\<close>

record 'b filesystem =
  fs_exists :: "path \<Rightarrow> bool"
  fs_glob :: "path \<Rightarrow> string \<Rightarrow> path list"
  fs_read :: "path \<Rightarrow> 'b"
  fs_image_size :: "path \<Rightarrow> (real \<times> real) option"
  str_to_float :: "string \<Rightarrow> real option"

subsection \<open>resolve\_image\_path\<close>

fun glob_search :: "('b, 'y) filesystem_scheme \<Rightarrow> path \<Rightarrow> string list \<Rightarrow> path option" where
  "glob_search fs scene_dir [] = None"
| "glob_search fs scene_dir (ext # exts) =
    (let cand = fs_glob fs scene_dir (''*'' @ ext);
         beauty = filter (\<lambda>c. prefix ''beauty.'' (pname c)) cand
     in (case beauty of b # _ \<Rightarrow> Some b
         | [] \<Rightarrow> (case cand of c # _ \<Rightarrow> Some c
                  | [] \<Rightarrow> glob_search fs scene_dir exts)))"

definition resolve_image_path ::
  "('b, 'y) filesystem_scheme \<Rightarrow> path \<Rightarrow> string option \<Rightarrow> string list \<Rightarrow> path option" where
  "resolve_image_path fs scene_dir fname exts =
    (case fname of
       None \<Rightarrow> glob_search fs scene_dir exts
     | Some f \<Rightarrow>
         if f = [] then glob_search fs scene_dir exts
         else if fs_exists fs (pjoin scene_dir (parts f)) then Some (pjoin scene_dir (parts f))
         else if fs_exists fs (pjoin scene_dir (parts (pname (parts f))))
           then Some (pjoin scene_dir (parts (pname (parts f))))
         else glob_search fs scene_dir exts)"

subsection \<open>The class registry of main\<close>

text \<open>
  \<^verbatim>\<open>classes\<close> is a Python dict, kept here as an association list in insertion
  order, with the counter \<^verbatim>\<open>next_cid\<close>. Lines 214 to 217 of the source: a label that
  is not yet a key is stored with the counter, which is then incremented; the id is
  read back from the dict.
\<close>

definition class_id ::
  "(string \<times> nat) list \<Rightarrow> nat \<Rightarrow> string \<Rightarrow> (string \<times> nat) list \<times> nat \<times> nat" where
  "class_id cls nxt lab =
    (case map_of cls lab of
       None \<Rightarrow> (cls @ [(lab, nxt)], nxt + 1, nxt)
     | Some cid \<Rightarrow> (cls, nxt, cid))"

subsection \<open>The run state\<close>

text \<open>
  A label line is the tuple that line 241 formats: the class id and the four
  fractions. A label file is the list of its lines, an output image the bytes copied.
  The warnings printed in tolerant mode are kept in the order printed, each with the
  path its message names: the annotation document that could not be read, the scene
  directory whose image is missing, the image whose size is unknown.
\<close>

type_synonym label_line = "nat \<times> real \<times> real \<times> real \<times> real"

datatype warning = FailedToRead path | MissingImage path | MissingSize path

record 'b state =
  classes :: "(string \<times> nat) list"
  next_cid :: nat
  st_images :: nat
  st_instances :: nat
  st_skipped_instances :: nat
  st_scenes :: nat
  out_images :: "string \<rightharpoonup> 'b"
  out_labels :: "string \<rightharpoonup> label_line list"
  printed :: "warning list"

definition skip_instance :: "'b state \<Rightarrow> 'b state" where
  "skip_instance s = s\<lparr>st_skipped_instances := st_skipped_instances s + 1\<rparr>"

definition warn :: "warning \<Rightarrow> 'b state \<Rightarrow> 'b state" where
  "warn m s = s\<lparr>printed := printed s @ [m]\<rparr>"

text \<open>
  Lines 220 to 225: a bbox that is falsy or whose length is not 4 is skipped (None);
  otherwise it is unpacked into four values. \<^verbatim>\<open>len\<close> raises on a number or on
  \<^verbatim>\<open>true\<close>.
\<close>

definition unpack_bbox :: "json option \<Rightarrow> error + (json \<times> json \<times> json \<times> json) option" where
  "unpack_bbox b =
    (case b of
       None \<Rightarrow> Inr None
     | Some v \<Rightarrow>
         if \<not> json_truthy v then Inr None
         else (case json_len v of
                 Inl e \<Rightarrow> Inl e
               | Inr n \<Rightarrow>
                   if n \<noteq> 4 then Inr None
                   else (case json_items v of
                           [xmin, ymin, xmax, ymax] \<Rightarrow> Inr (Some (xmin, ymin, xmax, ymax))
                         | _ \<Rightarrow> Inl ValueError)))"

text \<open>The four conversions of line 236, left to right.\<close>

definition float_bbox ::
  "(string \<Rightarrow> real option) \<Rightarrow> json \<times> json \<times> json \<times> json \<Rightarrow> error + (real \<times> real \<times> real \<times> real)" where
  "float_bbox parse b =
    (case b of (xmin, ymin, xmax, ymax) \<Rightarrow>
      (case json_float parse xmin of Inl e \<Rightarrow> Inl e | Inr x1 \<Rightarrow>
      (case json_float parse ymin of Inl e \<Rightarrow> Inl e | Inr y1 \<Rightarrow>
      (case json_float parse xmax of Inl e \<Rightarrow> Inl e | Inr x2 \<Rightarrow>
      (case json_float parse ymax of Inl e \<Rightarrow> Inl e | Inr y2 \<Rightarrow> Inr (x1, y1, x2, y2))))))"

text \<open>Lines 226 to 234: the declared size, or else the size the imaging library reads.\<close>

definition resolve_dims ::
  "('b, 'y) filesystem_scheme \<Rightarrow> path \<Rightarrow> real option \<Rightarrow> real option \<Rightarrow> (real \<times> real) option" where
  "resolve_dims fs src_img w h =
    (case (w, h) of
       (Some wv, Some hv) \<Rightarrow> Some (wv, hv)
     | _ \<Rightarrow> fs_image_size fs src_img)"

text \<open>
  One iteration of the loop of lines 208 to 241. The loop carries the run state, the
  width and height of the image (overwritten when read from the file) and the lines
  gathered so far.
\<close>

type_synonym 'b loop_state = "'b state \<times> real option \<times> real option \<times> label_line list"

definition process_instance ::
  "('b, 'y) filesystem_scheme \<Rightarrow> bool \<Rightarrow> string \<Rightarrow> path \<Rightarrow> ('i, 'x) instance_entry_scheme \<Rightarrow>
     'b loop_state \<Rightarrow> error + 'b loop_state" where
  "process_instance fs strict label_field src_img inst = (\<lambda>(s, w, h, lines).
    (case label_from_instance inst label_field of
       None \<Rightarrow> Inr (skip_instance s, w, h, lines)
     | Some lab \<Rightarrow>
        (case class_id (classes s) (next_cid s) lab of (cls', nxt', cid) \<Rightarrow>
          (let s1 = s\<lparr>classes := cls', next_cid := nxt'\<rparr>
           in (case unpack_bbox (bbox inst) of
                 Inl e \<Rightarrow> Inl e
               | Inr None \<Rightarrow> Inr (skip_instance s1, w, h, lines)
               | Inr (Some b) \<Rightarrow>
                   (case resolve_dims fs src_img w h of
                      None \<Rightarrow>
                        if strict then Inl RuntimeError
                        else Inr (warn (MissingSize src_img) s1, w, h, lines)
                    | Some (wv, hv) \<Rightarrow>
                       (case float_bbox (str_to_float fs) b of
                          Inl e \<Rightarrow> Inl e
                        | Inr (xmin, ymin, xmax, ymax) \<Rightarrow>
                           (case yolo_bbox xmin ymin xmax ymax wv hv of
                              Inl e \<Rightarrow> Inl e
                            | Inr (x, y, bw, bh) \<Rightarrow>
                                if bw \<le> 0 \<or> bh \<le> 0
                                then Inr (skip_instance s1, Some wv, Some hv, lines)
                                else Inr (s1, Some wv, Some hv,
                                          lines @ [(cid, x, y, bw, bh)])))))))))"

fun process_instances ::
  "('b, 'y) filesystem_scheme \<Rightarrow> bool \<Rightarrow> string \<Rightarrow> path \<Rightarrow> ('i, 'x) instance_entry_scheme list \<Rightarrow>
     'b loop_state \<Rightarrow> error + 'b loop_state" where
  "process_instances fs strict label_field src_img [] st = Inr st"
| "process_instances fs strict label_field src_img (inst # insts) st =
    (case process_instance fs strict label_field src_img inst st of
       Inl e \<Rightarrow> Inl e
     | Inr st' \<Rightarrow> process_instances fs strict label_field src_img insts st')"

subsection \<open>One image, one scene, the run\<close>

type_synonym meta = "string option \<times> real option \<times> real option"

record 'i image_entry =
  im_id :: "'i option"
  im_file_name :: "string option"
  im_width :: "real option"
  im_height :: "real option"

record 'i document =
  doc_images :: "'i image_entry list"
  doc_instances :: "'i instance_entry list"

text \<open>Lines 165 to 171: a later entry with the same id replaces the meta data in place.\<close>

definition build_img_map :: "'i image_entry list \<Rightarrow> ('i option \<times> meta) list" where
  "build_img_map images =
    foldl (\<lambda>m im. AList.update (im_id im) (im_file_name im, im_width im, im_height im) m) [] images"

text \<open>Lines 174 to 180: the per-image lists and the count of orphaned instances.\<close>

definition add_instance ::
  "('i option \<times> 'i instance_entry list) list \<times> nat \<Rightarrow> 'i instance_entry \<Rightarrow>
     ('i option \<times> 'i instance_entry list) list \<times> nat" where
  "add_instance acc inst = (case acc of (per_image, skipped) \<Rightarrow>
    (case map_of per_image (image_id inst) of
       None \<Rightarrow> (per_image, skipped + 1)
     | Some l \<Rightarrow> (AList.update (image_id inst) (l @ [inst]) per_image, skipped)))"

definition build_per_image ::
  "('i option \<times> meta) list \<Rightarrow> 'i instance_entry list \<Rightarrow> ('i option \<times> 'i instance_entry list) list \<times> nat" where
  "build_per_image img_map insts =
    foldl add_instance (map (\<lambda>(iid, m). (iid, [])) img_map, 0) insts"

text \<open>The body of the loop of lines 187 to 245, for one entry of \<^verbatim>\<open>img_map\<close>.\<close>

definition process_image ::
  "('b, 'y) filesystem_scheme \<Rightarrow> bool \<Rightarrow> string \<Rightarrow> string list \<Rightarrow> path \<Rightarrow>
     ('i option \<times> 'i instance_entry list) list \<Rightarrow> 'i option \<times> meta \<Rightarrow> 'b state \<Rightarrow> error + 'b state" where
  "process_image fs strict label_field exts scene_dir per_image entry s =
    (case entry of (iid, fname, w, h) \<Rightarrow>
      (case (case resolve_image_path fs scene_dir fname exts of
               None \<Rightarrow> None
             | Some p \<Rightarrow> if fs_exists fs p then Some p else None) of
         None \<Rightarrow> if strict then Inl FileNotFoundError else Inr (warn (MissingImage scene_dir) s)
       | Some src_img \<Rightarrow>
          (let new_name = pname scene_dir @ ''_'' @ pname src_img;
               out_lbl = stem new_name @ ''.txt'';
               s1 = (if out_images s new_name = None
                     then s\<lparr>out_images := (out_images s)(new_name \<mapsto> fs_read fs src_img)\<rparr>
                     else s)
           in (case map_of per_image iid of
                 None \<Rightarrow> Inl KeyError
               | Some insts \<Rightarrow>
                  (case process_instances fs strict label_field src_img insts (s1, w, h, []) of
                     Inl e \<Rightarrow> Inl e
                   | Inr (s2, w', h', lines) \<Rightarrow>
                       Inr (s2\<lparr>out_labels := (out_labels s2)(out_lbl \<mapsto> lines),
                               st_images := st_images s2 + 1,
                               st_instances := st_instances s2 + length lines\<rparr>))))))"

fun process_images ::
  "('b, 'y) filesystem_scheme \<Rightarrow> bool \<Rightarrow> string \<Rightarrow> string list \<Rightarrow> path \<Rightarrow>
     ('i option \<times> 'i instance_entry list) list \<Rightarrow> ('i option \<times> meta) list \<Rightarrow> 'b state \<Rightarrow> error + 'b state" where
  "process_images fs strict label_field exts scene_dir per_image [] s = Inr s"
| "process_images fs strict label_field exts scene_dir per_image (entry # entries) s =
    (case process_image fs strict label_field exts scene_dir per_image entry s of
       Inl e \<Rightarrow> Inl e
     | Inr s' \<Rightarrow> process_images fs strict label_field exts scene_dir per_image entries s')"

text \<open>
  The body of the loop of lines 151 to 245 for one annotation document found under the
  input root: its directory and the parsed document, None when reading or parsing fails.
\<close>

definition process_scene ::
  "('b, 'y) filesystem_scheme \<Rightarrow> bool \<Rightarrow> string \<Rightarrow> string list \<Rightarrow>
     path \<times> 'i document option \<Rightarrow> 'b state \<Rightarrow> error + 'b state" where
  "process_scene fs strict label_field exts scene s =
    (case scene of (scene_dir, data) \<Rightarrow>
      (let s0 = s\<lparr>st_scenes := st_scenes s + 1\<rparr>
       in (case data of
             None \<Rightarrow>
               if strict then Inl RuntimeError
               else Inr (warn (FailedToRead (scene_dir @ [''scene_instances.json''])) s0)
           | Some d \<Rightarrow>
              (let img_map = build_img_map (doc_images d)
               in (case build_per_image img_map (doc_instances d) of (per_image, skipped) \<Rightarrow>
                    process_images fs strict label_field exts scene_dir per_image img_map
                      (s0\<lparr>st_skipped_instances := st_skipped_instances s0 + skipped\<rparr>))))))"

fun process_scenes ::
  "('b, 'y) filesystem_scheme \<Rightarrow> bool \<Rightarrow> string \<Rightarrow> string list \<Rightarrow>
     (path \<times> 'i document option) list \<Rightarrow> 'b state \<Rightarrow> error + 'b state" where
  "process_scenes fs strict label_field exts [] s = Inr s"
| "process_scenes fs strict label_field exts (scene # scenes) s =
    (case process_scene fs strict label_field exts scene s of
       Inl e \<Rightarrow> Inl e
     | Inr s' \<Rightarrow> process_scenes fs strict label_field exts scenes s')"

text \<open>Lines 248 to 250: the list of labels indexed by id.\<close>

fun invert_classes :: "(string \<times> nat) list \<Rightarrow> string option list \<Rightarrow> error + string option list" where
  "invert_classes [] inv_list = Inr inv_list"
| "invert_classes ((k, v) # kvs) inv_list =
    (if v < length inv_list then invert_classes kvs (inv_list[v := Some k]) else Inl IndexError)"

text \<open>The \<^verbatim>\<open>names:\<close> section that write\_data\_yaml emits: one entry per index.\<close>

definition write_data_yaml :: "string option list \<Rightarrow> (nat \<times> string option) list" where
  "write_data_yaml class_list = map (\<lambda>cls_num. (cls_num, class_list ! cls_num)) [0..<length class_list]"

text \<open>
  The run, from the output images and labels already present: the final state and the
  names section of the manifest.
\<close>

definition initial_state :: "(string \<rightharpoonup> 'b) \<Rightarrow> (string \<rightharpoonup> label_line list) \<Rightarrow> 'b state" where
  "initial_state imgs lbls =
    \<lparr>classes = [], next_cid = 0, st_images = 0, st_instances = 0,
     st_skipped_instances = 0, st_scenes = 0, out_images = imgs, out_labels = lbls,
     printed = []\<rparr>"

definition main ::
  "('b, 'y) filesystem_scheme \<Rightarrow> bool \<Rightarrow> string \<Rightarrow> string list \<Rightarrow>
     (path \<times> 'i document option) list \<Rightarrow> (string \<rightharpoonup> 'b) \<Rightarrow> (string \<rightharpoonup> label_line list) \<Rightarrow>
     error + ('b state \<times> (nat \<times> string option) list)" where
  "main fs strict label_field exts scenes imgs lbls =
    (case process_scenes fs strict label_field exts scenes (initial_state imgs lbls) of
       Inl e \<Rightarrow> Inl e
     | Inr s \<Rightarrow>
        (case invert_classes (classes s) (replicate (length (classes s)) None) of
           Inl e \<Rightarrow> Inl e
         | Inr inv_list \<Rightarrow> Inr (s, write_data_yaml inv_list)))"

subsection \<open>Names for the registry step\<close>

text \<open>The state after lines 214 to 217 have looked a label up, and the id they read.\<close>

definition register :: "string \<Rightarrow> 'b state \<Rightarrow> 'b state" where
  "register lab s =
    s\<lparr>classes := fst (class_id (classes s) (next_cid s) lab),
      next_cid := fst (snd (class_id (classes s) (next_cid s) lab))\<rparr>"

definition cid_of :: "'b state \<Rightarrow> string \<Rightarrow> nat" where
  "cid_of s lab = snd (snd (class_id (classes s) (next_cid s) lab))"

text \<open>The ids of the registry are the positions of its labels, and no label occurs twice.\<close>

definition registry_ok :: "(string \<times> nat) list \<Rightarrow> nat \<Rightarrow> bool" where
  "registry_ok cls nxt = (map snd cls = [0..<nxt] \<and> distinct (map fst cls))"

text \<open>A state with \<open>k\<close> more skipped instances counted.\<close>

definition add_skipped :: "nat \<Rightarrow> 'b state \<Rightarrow> 'b state" where
  "add_skipped k s = s\<lparr>st_skipped_instances := st_skipped_instances s + k\<rparr>"

text \<open>An entry of the per-image map with the instances of its image appended.\<close>

definition attach :: "'i instance_entry list \<Rightarrow> 'i option \<times> 'i instance_entry list \<Rightarrow>
    'i option \<times> 'i instance_entry list" where
  "attach insts p = (fst p, snd p @ filter (\<lambda>i. image_id i = fst p) insts)"

subsection \<open>Example inputs\<close>

text \<open>
  Two scene directories with the same name, \<^verbatim>\<open>/in/a/sceneA\<close> and
  \<^verbatim>\<open>/in/b/sceneA\<close>, each holding \<^verbatim>\<open>beauty.0001.png\<close> (the bytes of the two
  files are 1 and 2), and an image of 100 by 50 pixels with some instances. Of the
  strings in the examples, \<^verbatim>\<open>float\<close> reads \<^verbatim>\<open>"60"\<close> and rejects the others.
\<close>

definition dir_a :: path where
  "dir_a = [''/'', ''in'', ''a'', ''sceneA'']"

definition dir_b :: path where
  "dir_b = [''/'', ''in'', ''b'', ''sceneA'']"

definition ex_fs :: "nat filesystem" where
  "ex_fs = \<lparr>fs_exists = (\<lambda>p. p = dir_a @ [''beauty.0001.png''] \<or> p = dir_b @ [''beauty.0001.png'']),
            fs_glob = (\<lambda>d pat. if pat = ''*.png'' \<and> (d = dir_a \<or> d = dir_b)
                                then [d @ [''beauty.0001.png'']] else []),
            fs_read = (\<lambda>p. if p = dir_a @ [''beauty.0001.png''] then 1 else 2),
            fs_image_size = (\<lambda>p. None),
            str_to_float = (\<lambda>s. if s = ''60'' then Some 60 else None)\<rparr>"

definition ex_image :: "nat image_entry" where
  "ex_image = \<lparr>im_id = Some 1, im_file_name = Some ''beauty.0001.png'',
               im_width = Some 100, im_height = Some 50\<rparr>"

definition ex_car :: "nat instance_entry" where
  "ex_car = \<lparr>image_id = Some 1, class_field = Some ''car'', subclass_field = None,
             superclass_field = None, path_field = None, bbox = Some (JArr [JNum 10, JNum 10, JNum 60, JNum 40])\<rparr>"

definition ex_truck :: "nat instance_entry" where
  "ex_truck = \<lparr>image_id = Some 1, class_field = Some ''truck'', subclass_field = None,
               superclass_field = None, path_field = None, bbox = None\<rparr>"

definition ex_far :: "nat instance_entry" where
  "ex_far = \<lparr>image_id = Some 1, class_field = Some ''car'', subclass_field = None,
             superclass_field = None, path_field = None, bbox = Some (JArr [JNum 200, JNum 10, JNum 200, JNum 40])\<rparr>"

text \<open>A bbox whose third element is the string \<^verbatim>\<open>"x"\<close>, and a bbox that is the number 5.\<close>

definition ex_text :: "nat instance_entry" where
  "ex_text = \<lparr>image_id = Some 1, class_field = Some ''car'', subclass_field = None,
              superclass_field = None, path_field = None,
              bbox = Some (JArr [JNum 10, JNum 10, JStr ''x'', JNum 40])\<rparr>"

definition ex_scalar :: "nat instance_entry" where
  "ex_scalar = \<lparr>image_id = Some 1, class_field = Some ''car'', subclass_field = None,
                superclass_field = None, path_field = None, bbox = Some (JNum 5)\<rparr>"

text \<open>An instance of image 7, which the document does not declare.\<close>

definition ex_orphan :: "nat instance_entry" where
  "ex_orphan = \<lparr>image_id = Some 7, class_field = Some ''bus'', subclass_field = None,
                superclass_field = None, path_field = None,
                bbox = Some (JArr [JNum 10, JNum 10, JNum 60, JNum 40])\<rparr>"

text \<open>
  The two scenes of the same name: the image of the first has a car, the image of the
  second has a van.
\<close>

definition ex_van :: "nat instance_entry" where
  "ex_van = \<lparr>image_id = Some 1, class_field = Some ''van'', subclass_field = None,
             superclass_field = None, path_field = None,
             bbox = Some (JArr [JNum 0, JNum 0, JNum 50, JNum 25])\<rparr>"

definition ex_scene_a :: "path \<times> nat document option" where
  "ex_scene_a = (dir_a, Some \<lparr>doc_images = [ex_image], doc_instances = [ex_car]\<rparr>)"

definition ex_scene_b :: "path \<times> nat document option" where
  "ex_scene_b = (dir_b, Some \<lparr>doc_images = [ex_image], doc_instances = [ex_van]\<rparr>)"

definition ex_state :: "nat state" where
  "ex_state = initial_state Map.empty Map.empty"

definition ex_blank :: "nat instance_entry" where
  "ex_blank = \<lparr>image_id = Some 1, class_field = Some [], subclass_field = Some [],
               superclass_field = None, path_field = None, bbox = Some (JArr [JNum 10, JNum 10, JNum 60, JNum 40])\<rparr>"

text \<open>
  The same tree where \<^verbatim>\<open>/in/a/sceneA\<close> also holds \<^verbatim>\<open>albedo.png\<close>, listed
  before \<^verbatim>\<open>beauty.0001.png\<close>.
\<close>

definition ex_fs_mixed :: "nat filesystem" where
  "ex_fs_mixed = ex_fs\<lparr>fs_glob := (\<lambda>d pat. if pat = ''*.png'' \<and> d = dir_a
                                        then [d @ [''albedo.png''], d @ [''beauty.0001.png'']]
                                        else [])\<rparr>"

definition ex_scene_two :: "path \<times> nat document option" where
  "ex_scene_two = (dir_a, Some \<lparr>doc_images = [ex_image], doc_instances = [ex_car, ex_truck, ex_car]\<rparr>)"

definition ex_state_two :: "nat state" where
  "ex_state_two =
    \<lparr>classes = [(''car'', 0), (''truck'', 1)], next_cid = 2, st_images = 1, st_instances = 2,
     st_skipped_instances = 1, st_scenes = 1,
     out_images = [''sceneA_beauty.0001.png'' \<mapsto> 1],
     out_labels = [''sceneA_beauty.0001.txt'' \<mapsto>
        [(0, 7 / 20, 1 / 2, 1 / 2, 3 / 5), (0, 7 / 20, 1 / 2, 1 / 2, 3 / 5)]],
     printed = []\<rparr>"

section \<open>Properties\<close>

subsection \<open>The bounding-box normaliser\<close>

text \<open>
  C4, as stated, fails: a box inside \<open>[0, width)\<close> whose two x coordinates both exceed
  \<open>width - 1\<close> is clamped to a box of zero width.
\<close>

theorem C4_inside_box_zero_width:
  "(0::real) \<le> 46 / 5 \<and> (46 / 5 :: real) < 49 / 5 \<and> (49 / 5 :: real) < 10 \<and>
   (0::real) \<le> 0 \<and> (0::real) < 5 \<and> (5::real) < 10 \<and>
   yolo_bbox (46 / 5) 0 (49 / 5) 5 10 10 = Inr (9 / 10, 1 / 4, 0, 1 / 2)"
  by (simp add: yolo_bbox_def Let_def)

text \<open>
  C4, amended: for every box with \<open>xmax > xmin\<close> and \<open>ymax > ymin\<close> lying inside
  \<open>[0, width) \<times> [0, height)\<close>, normalisation returns fractions with
  \<open>0 \<le> cx, cy \<le> 1\<close> and \<open>0 \<le> w, h \<le> 1\<close>; the width is positive exactly when
  \<open>xmin < width - 1\<close> and the height exactly when \<open>ymin < height - 1\<close>; and
  \<open>(cx \<plusminus> w/2) * width\<close>, \<open>(cy \<plusminus> h/2) * height\<close> are the clamped input box
  (in exact arithmetic).
\<close>

theorem C4_normalised_box:
  assumes "0 \<le> xmin" "xmin < xmax" "xmax < w" "0 \<le> ymin" "ymin < ymax" "ymax < h"
  shows "\<exists>cx cy nw nh. yolo_bbox xmin ymin xmax ymax w h = Inr (cx, cy, nw, nh)
      \<and> 0 \<le> cx \<and> cx \<le> 1 \<and> 0 \<le> cy \<and> cy \<le> 1
      \<and> 0 \<le> nw \<and> nw \<le> 1 \<and> 0 \<le> nh \<and> nh \<le> 1
      \<and> (0 < nw \<longleftrightarrow> xmin < w - 1) \<and> (0 < nh \<longleftrightarrow> ymin < h - 1)
      \<and> (cx - nw / 2) * w = max 0 (min xmin (w - 1))
      \<and> (cx + nw / 2) * w = max 0 (min xmax (w - 1))
      \<and> (cy - nh / 2) * h = max 0 (min ymin (h - 1))
      \<and> (cy + nh / 2) * h = max 0 (min ymax (h - 1))"
  using assms
  apply (simp add: yolo_bbox_def Let_def)
  apply (auto simp: field_simps max_def min_def)
  done

theorem C4_normalised_box_example:
  "((0::real) \<le> 10 \<and> (10::real) < 60 \<and> (60::real) < 100 \<and> (10::real) < 40 \<and> (40::real) < 50) \<and>
   (\<exists>cx cy nw nh. yolo_bbox 10 10 60 40 100 50 = Inr (cx, cy, nw, nh)
      \<and> 0 \<le> cx \<and> cx \<le> 1 \<and> 0 \<le> cy \<and> cy \<le> 1
      \<and> 0 \<le> nw \<and> nw \<le> 1 \<and> 0 \<le> nh \<and> nh \<le> 1
      \<and> (0 < nw \<longleftrightarrow> (10::real) < 100 - 1) \<and> (0 < nh \<longleftrightarrow> (10::real) < 50 - 1)
      \<and> (cx - nw / 2) * 100 = max 0 (min 10 (100 - 1))
      \<and> (cx + nw / 2) * 100 = max 0 (min 60 (100 - 1))
      \<and> (cy - nh / 2) * 50 = max 0 (min 10 (50 - 1))
      \<and> (cy + nh / 2) * 50 = max 0 (min 40 (50 - 1)))"
proof (rule conjI)
  show "(0::real) \<le> 10 \<and> (10::real) < 60 \<and> (60::real) < 100 \<and> (10::real) < 40 \<and> (40::real) < 50"
    by simp
  show "\<exists>cx cy nw nh. yolo_bbox 10 10 60 40 100 50 = Inr (cx, cy, nw, nh)
      \<and> 0 \<le> cx \<and> cx \<le> 1 \<and> 0 \<le> cy \<and> cy \<le> 1
      \<and> 0 \<le> nw \<and> nw \<le> 1 \<and> 0 \<le> nh \<and> nh \<le> 1
      \<and> (0 < nw \<longleftrightarrow> (10::real) < 100 - 1) \<and> (0 < nh \<longleftrightarrow> (10::real) < 50 - 1)
      \<and> (cx - nw / 2) * 100 = max 0 (min 10 (100 - 1))
      \<and> (cx + nw / 2) * 100 = max 0 (min 60 (100 - 1))
      \<and> (cy - nh / 2) * 50 = max 0 (min 10 (50 - 1))
      \<and> (cy + nh / 2) * 50 = max 0 (min 40 (50 - 1))"
    by (rule C4_normalised_box [of 10 60 100 10 40 50]) simp_all
qed

subsection \<open>One instance of the loop\<close>

lemma warn_fields [simp]:
  "classes (warn m s) = classes s" "next_cid (warn m s) = next_cid s"
  "st_images (warn m s) = st_images s" "st_instances (warn m s) = st_instances s"
  "st_skipped_instances (warn m s) = st_skipped_instances s" "st_scenes (warn m s) = st_scenes s"
  "out_images (warn m s) = out_images s" "out_labels (warn m s) = out_labels s"
  "printed (warn m s) = printed s @ [m]"
  by (simp_all add: warn_def)

lemma unpack_bbox_numbers:
  "unpack_bbox (Some (JArr [a, b, c, d])) = Inr (Some (a, b, c, d))"
  by (simp add: unpack_bbox_def)

lemma float_bbox_numbers:
  "float_bbox parse (JNum a, JNum b, JNum c, JNum d) = Inr (a, b, c, d)"
  by (simp add: float_bbox_def)

lemma length_four: "length xs = 4 \<longleftrightarrow> (\<exists>a b c d. xs = [a, b, c, d])"
  by (auto simp: eval_nat_numeral length_Suc_conv)

lemma json_items_length: "json_len v = Inr n \<Longrightarrow> length (json_items v) = n"
  by (cases v) auto

lemma unpack_bbox_skip:
  "unpack_bbox b = Inr None \<longleftrightarrow>
   b = None \<or> (\<exists>v. b = Some v \<and> (\<not> json_truthy v \<or> (\<exists>n. json_len v = Inr n \<and> n \<noteq> 4)))"
proof (cases b)
  case None
  then show ?thesis by (simp add: unpack_bbox_def)
next
  case (Some v)
  show ?thesis
  proof (cases "json_len v")
    case (Inl e)
    with Some show ?thesis by (simp add: unpack_bbox_def)
  next
    case (Inr n)
    show ?thesis
    proof (cases "n = 4")
      case True
      with Inr have "length (json_items v) = 4" by (simp add: json_items_length)
      then obtain x1 x2 x3 x4 where "json_items v = [x1, x2, x3, x4]"
        unfolding length_four by blast
      with Some Inr True show ?thesis by (simp add: unpack_bbox_def)
    next
      case False
      with Some Inr show ?thesis by (simp add: unpack_bbox_def)
    qed
  qed
qed

lemma process_instance_no_label:
  "label_from_instance inst lf = None \<Longrightarrow>
   process_instance fs strict lf src inst (s, w, h, lines) = Inr (skip_instance s, w, h, lines)"
  by (simp add: process_instance_def)





lemma process_instance_raise:
  assumes "label_from_instance inst lf = Some lab"
    and "unpack_bbox (bbox inst) = Inr (Some b)"
    and "resolve_dims fs src w h = Some (wv, hv)"
    and "float_bbox (str_to_float fs) b = Inr (xmin, ymin, xmax, ymax)"
    and "yolo_bbox xmin ymin xmax ymax wv hv = Inl e"
  shows "process_instance fs strict lf src inst (s, w, h, lines) = Inl e"
  using assms
  by (simp add: process_instance_def register_def Let_def split: prod.splits)

lemma process_instance_degenerate:
  assumes "label_from_instance inst lf = Some lab"
    and "unpack_bbox (bbox inst) = Inr (Some b)"
    and "resolve_dims fs src w h = Some (wv, hv)"
    and "float_bbox (str_to_float fs) b = Inr (xmin, ymin, xmax, ymax)"
    and "yolo_bbox xmin ymin xmax ymax wv hv = Inr (x, y, bw, bh)"
    and "bw \<le> 0 \<or> bh \<le> 0"
  shows "process_instance fs strict lf src inst (s, w, h, lines) =
         Inr (skip_instance (register lab s), Some wv, Some hv, lines)"
  using assms
  by (auto simp add: process_instance_def register_def Let_def split: prod.splits)

lemma process_instance_emit:
  assumes "label_from_instance inst lf = Some lab"
    and "unpack_bbox (bbox inst) = Inr (Some b)"
    and "resolve_dims fs src w h = Some (wv, hv)"
    and "float_bbox (str_to_float fs) b = Inr (xmin, ymin, xmax, ymax)"
    and "yolo_bbox xmin ymin xmax ymax wv hv = Inr (x, y, bw, bh)"
    and "0 < bw" "0 < bh"
  shows "process_instance fs strict lf src inst (s, w, h, lines) =
         Inr (register lab s, Some wv, Some hv, lines @ [(cid_of s lab, x, y, bw, bh)])"
  using assms
  by (auto simp add: process_instance_def register_def cid_of_def Let_def split: prod.splits)

text \<open>The same two facts for a bbox that is an array of four numbers.\<close>

lemma process_instance_degenerate_numbers:
  assumes "label_from_instance inst lf = Some lab"
    and "bbox inst = Some (JArr [JNum xmin, JNum ymin, JNum xmax, JNum ymax])"
    and "resolve_dims fs src w h = Some (wv, hv)"
    and "yolo_bbox xmin ymin xmax ymax wv hv = Inr (x, y, bw, bh)"
    and "bw \<le> 0 \<or> bh \<le> 0"
  shows "process_instance fs strict lf src inst (s, w, h, lines) =
         Inr (skip_instance (register lab s), Some wv, Some hv, lines)"
  using assms(2) process_instance_degenerate
    [OF assms(1) _ assms(3) float_bbox_numbers assms(4,5)]
  by (simp add: unpack_bbox_numbers)

lemma process_instance_emit_numbers:
  assumes "label_from_instance inst lf = Some lab"
    and "bbox inst = Some (JArr [JNum xmin, JNum ymin, JNum xmax, JNum ymax])"
    and "resolve_dims fs src w h = Some (wv, hv)"
    and "yolo_bbox xmin ymin xmax ymax wv hv = Inr (x, y, bw, bh)"
    and "0 < bw" "0 < bh"
  shows "process_instance fs strict lf src inst (s, w, h, lines) =
         Inr (register lab s, Some wv, Some hv, lines @ [(cid_of s lab, x, y, bw, bh)])"
  using assms(2) process_instance_emit
    [OF assms(1) _ assms(3) float_bbox_numbers assms(4,5,6)]
  by (simp add: unpack_bbox_numbers)

lemmas ex_defs = dir_a_def dir_b_def ex_fs_def ex_image_def ex_car_def ex_truck_def ex_far_def
  ex_blank_def ex_text_def ex_scalar_def ex_orphan_def
  ex_van_def ex_scene_a_def ex_scene_b_def
  ex_state_def initial_state_def

text \<open>
  C5: whenever normalisation returns (it does for non-zero width and height), its
  result is degenerate, in the sense of the test of line 237, exactly when the
  extent \<open>bw\<close> or \<open>bh\<close> after clamping is \<open>\<le> 0\<close>; every box that lies outside
  the image (to the left of 0, at or beyond the width, above 0 or at or beyond the
  height) is degenerate; and an instance whose box is degenerate is skipped in both
  modes: the lines gathered for the label file are unchanged, no label file is touched,
  and \<open>skipped_instances\<close> grows by one.
\<close>

theorem C5_degenerate:
  "(w \<noteq> 0 \<and> h \<noteq> 0 \<longrightarrow>
      (\<exists>cx cy nw nh. yolo_bbox xmin ymin xmax ymax w h = Inr (cx, cy, nw, nh) \<and>
         ((nw \<le> 0 \<or> nh \<le> 0) \<longleftrightarrow>
          (max 0 (max 0 (min xmax (w - 1)) - max 0 (min xmin (w - 1))) \<le> 0 \<or>
           max 0 (max 0 (min ymax (h - 1)) - max 0 (min ymin (h - 1))) \<le> 0)))) \<and>
   (0 < w \<and> 0 < h \<and> (xmax < 0 \<or> w \<le> xmin \<or> ymax < 0 \<or> h \<le> ymin) \<longrightarrow>
      (\<exists>cx cy nw nh. yolo_bbox xmin ymin xmax ymax w h = Inr (cx, cy, nw, nh) \<and>
         (nw \<le> 0 \<or> nh \<le> 0))) \<and>
   (bbox inst = Some (JArr [JNum xmin, JNum ymin, JNum xmax, JNum ymax]) \<and> resolve_dims fs src w0 h0 = Some (w, h) \<and>
    yolo_bbox xmin ymin xmax ymax w h = Inr (cx, cy, nw, nh) \<and> (nw \<le> 0 \<or> nh \<le> 0) \<longrightarrow>
      (\<exists>s' w' h'. process_instance fs strict lf src inst (s, w0, h0, lines) = Inr (s', w', h', lines) \<and>
         st_skipped_instances s' = st_skipped_instances s + 1 \<and>
         st_instances s' = st_instances s \<and> out_labels s' = out_labels s))"
proof (intro conjI impI)
  assume "w \<noteq> 0 \<and> h \<noteq> 0"
  then show "\<exists>cx cy nw nh. yolo_bbox xmin ymin xmax ymax w h = Inr (cx, cy, nw, nh) \<and>
         ((nw \<le> 0 \<or> nh \<le> 0) \<longleftrightarrow>
          (max 0 (max 0 (min xmax (w - 1)) - max 0 (min xmin (w - 1))) \<le> 0 \<or>
           max 0 (max 0 (min ymax (h - 1)) - max 0 (min ymin (h - 1))) \<le> 0))"
    apply (simp add: yolo_bbox_def Let_def)
    apply (auto simp: field_simps max_def min_def divide_le_0_iff)
    done
next
  assume "0 < w \<and> 0 < h \<and> (xmax < 0 \<or> w \<le> xmin \<or> ymax < 0 \<or> h \<le> ymin)"
  then show "\<exists>cx cy nw nh. yolo_bbox xmin ymin xmax ymax w h = Inr (cx, cy, nw, nh) \<and>
         (nw \<le> 0 \<or> nh \<le> 0)"
    apply (simp add: yolo_bbox_def Let_def)
    apply (auto simp: field_simps max_def min_def divide_le_0_iff)
    done
next
  assume a: "bbox inst = Some (JArr [JNum xmin, JNum ymin, JNum xmax, JNum ymax]) \<and> resolve_dims fs src w0 h0 = Some (w, h) \<and>
    yolo_bbox xmin ymin xmax ymax w h = Inr (cx, cy, nw, nh) \<and> (nw \<le> 0 \<or> nh \<le> 0)"
  show "\<exists>s' w' h'. process_instance fs strict lf src inst (s, w0, h0, lines) = Inr (s', w', h', lines) \<and>
         st_skipped_instances s' = st_skipped_instances s + 1 \<and>
         st_instances s' = st_instances s \<and> out_labels s' = out_labels s"
  proof (cases "label_from_instance inst lf")
    case None
    then show ?thesis
      by (simp add: process_instance_no_label skip_instance_def)
  next
    case (Some lab)
    with a show ?thesis
      by (simp add: process_instance_degenerate_numbers [where lab = lab] skip_instance_def register_def)
  qed
qed

theorem C5_degenerate_example:
  "((100::real) \<noteq> 0 \<and> (50::real) \<noteq> 0) \<and>
   ((0::real) < 100 \<and> (0::real) < 50 \<and> (100::real) \<le> 200) \<and>
   (bbox ex_far = Some (JArr [JNum 200, JNum 10, JNum 200, JNum 40]) \<and>
    resolve_dims ex_fs (dir_a @ [''beauty.0001.png'']) (Some 100) (Some 50) = Some (100, 50) \<and>
    yolo_bbox 200 10 200 40 100 50 = Inr (99 / 100, 1 / 2, 0, 3 / 5)) \<and>
   (\<exists>s' w' h'. process_instance ex_fs True ''class'' (dir_a @ [''beauty.0001.png'']) ex_far
        (ex_state, Some 100, Some 50, []) = Inr (s', w', h', []) \<and>
      st_skipped_instances s' = st_skipped_instances ex_state + 1 \<and>
      st_instances s' = st_instances ex_state \<and> out_labels s' = out_labels ex_state)"
proof -
  have h1: "(100::real) \<noteq> 0 \<and> (50::real) \<noteq> 0"
    by simp
  have h2: "(0::real) < 100 \<and> (0::real) < 50 \<and> (100::real) \<le> 200"
    by simp
  have h3: "bbox ex_far = Some (JArr [JNum 200, JNum 10, JNum 200, JNum 40]) \<and>
    resolve_dims ex_fs (dir_a @ [''beauty.0001.png'']) (Some 100) (Some 50) = Some (100, 50) \<and>
    yolo_bbox 200 10 200 40 100 50 = Inr (99 / 100, 1 / 2, 0, 3 / 5)"
    by (simp add: ex_far_def resolve_dims_def yolo_bbox_def Let_def)
  have "\<exists>s' w' h'. process_instance ex_fs True ''class'' (dir_a @ [''beauty.0001.png'']) ex_far
        (ex_state, Some 100, Some 50, []) = Inr (s', w', h', []) \<and>
      st_skipped_instances s' = st_skipped_instances ex_state + 1 \<and>
      st_instances s' = st_instances ex_state \<and> out_labels s' = out_labels ex_state"
    using h3 C5_degenerate [of 100 50 200 10 200 40 ex_far ex_fs "dir_a @ [''beauty.0001.png'']"
        "Some 100" "Some 50" "99 / 100" "1 / 2" 0 "3 / 5" True "''class''" ex_state "[]"]
    by simp
  with h1 h2 h3 show ?thesis
    by blast
qed

subsection \<open>The registry step comes before the bounding box\<close>

lemma class_id_new:
  "map_of cls lab = None \<Longrightarrow> class_id cls nxt lab = (cls @ [(lab, nxt)], nxt + 1, nxt)"
  by (simp add: class_id_def)

lemma class_id_old:
  "map_of cls lab = Some cid \<Longrightarrow> class_id cls nxt lab = (cls, nxt, cid)"
  by (simp add: class_id_def)

lemma class_id_lookup:
  "map_of (fst (class_id cls nxt lab)) lab = Some (snd (snd (class_id cls nxt lab)))"
  by (cases "map_of cls lab") (simp_all add: class_id_def map_add_def)

lemma register_lookup: "map_of (classes (register lab s)) lab = Some (cid_of s lab)"
  by (simp add: register_def cid_of_def class_id_lookup)

lemma process_instance_cases:
  assumes "label_from_instance inst lf = Some lab"
    and "process_instance fs strict lf src inst (s, w, h, lines) = Inr (s', w', h', lines')"
  shows "classes s' = classes (register lab s) \<and> next_cid s' = next_cid (register lab s) \<and>
         (lines' = lines \<or>
          (\<exists>b xmin ymin xmax ymax wv hv x y bw bh.
             unpack_bbox (bbox inst) = Inr (Some b) \<and>
             resolve_dims fs src w h = Some (wv, hv) \<and>
             float_bbox (str_to_float fs) b = Inr (xmin, ymin, xmax, ymax) \<and>
             yolo_bbox xmin ymin xmax ymax wv hv = Inr (x, y, bw, bh) \<and> 0 < bw \<and> 0 < bh \<and>
             lines' = lines @ [(cid_of s lab, x, y, bw, bh)]))"
  using assms
  by (auto simp: process_instance_def register_def cid_of_def skip_instance_def warn_def Let_def
           split: prod.splits option.splits sum.splits if_splits)

lemmas run_defs = main_def process_scene_def process_image_def
  process_instance_def build_img_map_def build_per_image_def add_instance_def
  resolve_image_path_def parts_def pjoin_def pname_def stem_def label_from_instance_def
  class_id_def resolve_dims_def yolo_bbox_def skip_instance_def write_data_yaml_def Let_def
  unpack_bbox_def float_bbox_def warn_def

text \<open>
  C1, as stated, fails: lines 214 to 217 register the label before line 220 looks at the
  bounding box. A scene whose only instance has the class \<open>truck\<close> and no bbox ends
  with \<open>truck\<close> in the registry and in the manifest, an empty label file and no
  emitted line.
\<close>

theorem C1_skipped_instance_registers:
  "main ex_fs False ''class'' [''.png'']
      [(dir_a, Some \<lparr>doc_images = [ex_image], doc_instances = [ex_truck]\<rparr>)] Map.empty Map.empty =
   Inr (\<lparr>classes = [(''truck'', 0)], next_cid = 1, st_images = 1, st_instances = 0,
         st_skipped_instances = 1, st_scenes = 1,
         out_images = [''sceneA_beauty.0001.png'' \<mapsto> 1],
         out_labels = [''sceneA_beauty.0001.txt'' \<mapsto> []], printed = []\<rparr>,
        [(0, Some ''truck'')])"
  by (simp add: ex_defs run_defs)

text \<open>
  C1, amended: for every instance the steps run in the order of the code. The label is
  extracted first; an absent label skips the instance and leaves the registry as it
  was. A present label obtains its class id from the registry at once (a new label is
  registered), before the bounding box is looked up, the dimensions are resolved and
  the box is normalised; so whenever the step returns, the registry holds the label,
  whether or not a line was emitted, and a line is emitted only for a bbox that unpacks
  into four values which convert to floats and normalise to positive extents; the line
  carries the id registered for the label.
\<close>

theorem C1_label_registry_bbox_order:
  "(label_from_instance inst lf = None \<longrightarrow>
      process_instance fs strict lf src inst (s, w, h, lines) = Inr (skip_instance s, w, h, lines) \<and>
      classes (skip_instance s) = classes s \<and> next_cid (skip_instance s) = next_cid s) \<and>
   (label_from_instance inst lf = Some lab \<and>
    process_instance fs strict lf src inst (s, w, h, lines) = Inr (s', w', h', lines') \<longrightarrow>
      classes s' = fst (class_id (classes s) (next_cid s) lab) \<and>
      next_cid s' = fst (snd (class_id (classes s) (next_cid s) lab)) \<and>
      map_of (classes s') lab = Some (snd (snd (class_id (classes s) (next_cid s) lab))) \<and>
      (lines' = lines \<or>
       (\<exists>b xmin ymin xmax ymax wv hv x y bw bh.
          unpack_bbox (bbox inst) = Inr (Some b) \<and>
          resolve_dims fs src w h = Some (wv, hv) \<and>
          float_bbox (str_to_float fs) b = Inr (xmin, ymin, xmax, ymax) \<and>
          yolo_bbox xmin ymin xmax ymax wv hv = Inr (x, y, bw, bh) \<and> 0 < bw \<and> 0 < bh \<and>
          lines' = lines @ [(snd (snd (class_id (classes s) (next_cid s) lab)), x, y, bw, bh)])))"
proof (intro conjI impI)
  assume "label_from_instance inst lf = None"
  then show "process_instance fs strict lf src inst (s, w, h, lines) = Inr (skip_instance s, w, h, lines)"
    by (rule process_instance_no_label)
next
  show "classes (skip_instance s) = classes s" "next_cid (skip_instance s) = next_cid s"
    by (simp_all add: skip_instance_def)
next
  assume a: "label_from_instance inst lf = Some lab \<and>
    process_instance fs strict lf src inst (s, w, h, lines) = Inr (s', w', h', lines')"
  note c = process_instance_cases [OF conjunct1 [OF a] conjunct2 [OF a]]
  from c show "classes s' = fst (class_id (classes s) (next_cid s) lab)"
    by (simp add: register_def)
  from c show "next_cid s' = fst (snd (class_id (classes s) (next_cid s) lab))"
    by (simp add: register_def)
  from c show "map_of (classes s') lab = Some (snd (snd (class_id (classes s) (next_cid s) lab)))"
    using register_lookup [of lab s] by (simp add: cid_of_def)
  from c show "lines' = lines \<or>
       (\<exists>b xmin ymin xmax ymax wv hv x y bw bh.
          unpack_bbox (bbox inst) = Inr (Some b) \<and>
          resolve_dims fs src w h = Some (wv, hv) \<and>
          float_bbox (str_to_float fs) b = Inr (xmin, ymin, xmax, ymax) \<and>
          yolo_bbox xmin ymin xmax ymax wv hv = Inr (x, y, bw, bh) \<and> 0 < bw \<and> 0 < bh \<and>
          lines' = lines @ [(snd (snd (class_id (classes s) (next_cid s) lab)), x, y, bw, bh)])"
    by (simp add: cid_of_def)
qed

theorem C1_label_registry_bbox_order_example:
  "label_from_instance ex_truck ''subclass'' = None \<and>
   label_from_instance ex_truck ''class'' = Some ''truck'' \<and>
   process_instance ex_fs True ''class'' (dir_a @ [''beauty.0001.png'']) ex_truck
       (ex_state, Some 100, Some 50, []) =
     Inr (ex_state\<lparr>classes := [(''truck'', 0)], next_cid := 1, st_skipped_instances := 1\<rparr>,
          Some 100, Some 50, []) \<and>
   process_instance ex_fs True ''subclass'' (dir_a @ [''beauty.0001.png'']) ex_truck
       (ex_state, Some 100, Some 50, []) =
     Inr (skip_instance ex_state, Some 100, Some 50, []) \<and>
   map_of (classes (ex_state\<lparr>classes := [(''truck'', 0)], next_cid := 1, st_skipped_instances := 1\<rparr>))
       ''truck'' = Some (snd (snd (class_id (classes ex_state) (next_cid ex_state) ''truck'')))"
proof -
  have h1: "label_from_instance ex_truck ''subclass'' = None"
    by (simp add: ex_truck_def label_from_instance_def)
  have h2: "label_from_instance ex_truck ''class'' = Some ''truck''"
    by (simp add: ex_truck_def label_from_instance_def)
  have h3: "process_instance ex_fs True ''class'' (dir_a @ [''beauty.0001.png'']) ex_truck
       (ex_state, Some 100, Some 50, []) =
     Inr (ex_state\<lparr>classes := [(''truck'', 0)], next_cid := 1, st_skipped_instances := 1\<rparr>,
          Some 100, Some 50, [])"
    by (simp add: ex_defs process_instance_def label_from_instance_def class_id_def
          skip_instance_def unpack_bbox_def)
  note t = C1_label_registry_bbox_order [of ex_truck _ ex_fs True "dir_a @ [''beauty.0001.png'']"
      ex_state "Some 100" "Some 50" "[]"]
  have c1: "process_instance ex_fs True ''subclass'' (dir_a @ [''beauty.0001.png'']) ex_truck
       (ex_state, Some 100, Some 50, []) =
     Inr (skip_instance ex_state, Some 100, Some 50, [])"
    using t [of "''subclass''"] h1 by simp
  have c2: "map_of (classes (ex_state\<lparr>classes := [(''truck'', 0)], next_cid := 1,
         st_skipped_instances := 1\<rparr>)) ''truck'' =
       Some (snd (snd (class_id (classes ex_state) (next_cid ex_state) ''truck'')))"
    using t [of "''class''" "''truck''"
        "ex_state\<lparr>classes := [(''truck'', 0)], next_cid := 1, st_skipped_instances := 1\<rparr>"
        "Some 100" "Some 50" "[]"] h2 h3
    by blast
  from h1 h2 h3 c1 c2 show ?thesis
    by blast
qed

subsection \<open>Strict and tolerant mode\<close>






















subsection \<open>What strict mode gates\<close>

lemma process_image_missing:
  assumes "case resolve_image_path fs scene_dir fname exts of None \<Rightarrow> True | Some p \<Rightarrow> \<not> fs_exists fs p"
  shows "process_image fs strict lf exts scene_dir per_image (iid, fname, w, h) s =
         (if strict then Inl FileNotFoundError else Inr (warn (MissingImage scene_dir) s))"
  using assms by (simp add: process_image_def split: option.splits)





subsection \<open>The empty string as a label\<close>

text \<open>
  C10, as stated, fails in its last part: in mode \<open>class_subclass\<close> an empty subclass
  next to an empty (or missing) class is not treated as absent. \<^verbatim>\<open>c or s\<close> returns
  the empty string, which is registered as a class and gets a label line.
\<close>

theorem C10_blank_subclass_is_a_label:
  "label_from_instance ex_blank ''class_subclass'' = Some [] \<and>
   process_instance ex_fs False ''class_subclass'' (dir_a @ [''beauty.0001.png'']) ex_blank
       (ex_state, Some 100, Some 50, []) =
     Inr (ex_state\<lparr>classes := [([], 0)], next_cid := 1\<rparr>, Some 100, Some 50,
          [(0, 7 / 20, 1 / 2, 1 / 2, 3 / 5)])"
  by (simp add: ex_defs process_instance_def label_from_instance_def truthy_def class_id_def
        resolve_dims_def yolo_bbox_def Let_def unpack_bbox_def float_bbox_def)

text \<open>
  C10, amended: in the modes \<open>class\<close>, \<open>subclass\<close> and \<open>superclass\<close> the extractor
  returns the selected field verbatim, so an empty string is a label and not an
  absence; an instance whose label is the empty string has it registered in the
  registry, and with a box that normalises to positive extents a label line is emitted
  for it. In mode \<open>class_subclass\<close> an empty class is treated like a missing one, and
  an empty subclass is treated like a missing one only next to a non-empty class: the
  label is absent exactly when the class is empty or missing and the subclass is
  missing, and it is the empty string exactly when the class is empty or missing and
  the subclass is the empty string.
\<close>

theorem C10_empty_string_label:
  "label_from_instance inst ''class'' = class_field inst \<and>
   label_from_instance inst ''subclass'' = subclass_field inst \<and>
   label_from_instance inst ''superclass'' = superclass_field inst \<and>
   (label_from_instance inst lf = Some [] \<and>
    process_instance fs strict lf src inst (s, w, h, lines) = Inr (s', w', h', lines') \<longrightarrow>
      map_of (classes s') [] = Some (cid_of s [])) \<and>
   (label_from_instance inst lf = Some [] \<and> bbox inst = Some (JArr [JNum xmin, JNum ymin, JNum xmax, JNum ymax]) \<and>
    resolve_dims fs src w h = Some (wv, hv) \<and>
    yolo_bbox xmin ymin xmax ymax wv hv = Inr (x, y, bw, bh) \<and> 0 < bw \<and> 0 < bh \<longrightarrow>
      process_instance fs strict lf src inst (s, w, h, lines) =
        Inr (register [] s, Some wv, Some hv, lines @ [(cid_of s [], x, y, bw, bh)])) \<and>
   (label_from_instance inst ''class_subclass'' = None \<longleftrightarrow>
      \<not> truthy (class_field inst) \<and> subclass_field inst = None) \<and>
   (label_from_instance inst ''class_subclass'' = Some [] \<longleftrightarrow>
      \<not> truthy (class_field inst) \<and> subclass_field inst = Some []) \<and>
   label_from_instance (inst\<lparr>class_field := Some []\<rparr>) ''class_subclass'' =
     label_from_instance (inst\<lparr>class_field := None\<rparr>) ''class_subclass'' \<and>
   (truthy (class_field inst) \<longrightarrow>
      label_from_instance (inst\<lparr>subclass_field := Some []\<rparr>) ''class_subclass'' = class_field inst \<and>
      label_from_instance (inst\<lparr>subclass_field := None\<rparr>) ''class_subclass'' = class_field inst)"
proof (intro conjI impI)
  show "label_from_instance inst ''class'' = class_field inst"
    "label_from_instance inst ''subclass'' = subclass_field inst"
    "label_from_instance inst ''superclass'' = superclass_field inst"
    by (simp_all add: label_from_instance_def)
next
  assume a: "label_from_instance inst lf = Some [] \<and>
    process_instance fs strict lf src inst (s, w, h, lines) = Inr (s', w', h', lines')"
  from process_instance_cases [OF conjunct1 [OF a] conjunct2 [OF a]]
  have "classes s' = classes (register [] s)" by simp
  then show "map_of (classes s') [] = Some (cid_of s [])"
    by (simp add: register_lookup)
next
  assume "label_from_instance inst lf = Some [] \<and> bbox inst = Some (JArr [JNum xmin, JNum ymin, JNum xmax, JNum ymax]) \<and>
    resolve_dims fs src w h = Some (wv, hv) \<and>
    yolo_bbox xmin ymin xmax ymax wv hv = Inr (x, y, bw, bh) \<and> 0 < bw \<and> 0 < bh"
  then show "process_instance fs strict lf src inst (s, w, h, lines) =
        Inr (register [] s, Some wv, Some hv, lines @ [(cid_of s [], x, y, bw, bh)])"
    using process_instance_emit_numbers
      [of inst lf "[]" xmin ymin xmax ymax fs src w h wv hv x y bw bh strict s lines]
    by blast
next
  show "label_from_instance inst ''class_subclass'' = None \<longleftrightarrow>
      \<not> truthy (class_field inst) \<and> subclass_field inst = None"
    by (auto simp: label_from_instance_def truthy_def Let_def split: option.splits)
next
  show "label_from_instance inst ''class_subclass'' = Some [] \<longleftrightarrow>
      \<not> truthy (class_field inst) \<and> subclass_field inst = Some []"
    by (auto simp: label_from_instance_def truthy_def Let_def split: option.splits)
next
  show "label_from_instance (inst\<lparr>class_field := Some []\<rparr>) ''class_subclass'' =
     label_from_instance (inst\<lparr>class_field := None\<rparr>) ''class_subclass''"
    by (simp add: label_from_instance_def truthy_def Let_def)
next
  assume "truthy (class_field inst)"
  then show "label_from_instance (inst\<lparr>subclass_field := Some []\<rparr>) ''class_subclass'' = class_field inst"
    "label_from_instance (inst\<lparr>subclass_field := None\<rparr>) ''class_subclass'' = class_field inst"
    by (simp_all add: label_from_instance_def truthy_def Let_def)
qed

theorem C10_empty_string_label_example:
  "label_from_instance ex_blank ''class'' = Some [] \<and>
   map_of (classes (ex_state\<lparr>classes := [([], 0)], next_cid := 1\<rparr>)) [] = Some (cid_of ex_state []) \<and>
   process_instance ex_fs True ''class'' (dir_a @ [''beauty.0001.png'']) ex_blank
       (ex_state, Some 100, Some 50, []) =
     Inr (register [] ex_state, Some 100, Some 50,
          [] @ [(cid_of ex_state [], 7 / 20, 1 / 2, 1 / 2, 3 / 5)]) \<and>
   truthy (class_field ex_car) \<and>
   label_from_instance (ex_car\<lparr>subclass_field := Some []\<rparr>) ''class_subclass'' = class_field ex_car"
proof -
  let ?src = "dir_a @ [''beauty.0001.png'']"
  let ?s' = "ex_state\<lparr>classes := [([], 0)], next_cid := 1\<rparr>"
  note t = C10_empty_string_label [where fs = ex_fs and strict = True and lf = "''class''"
      and src = ?src and s = ex_state and w = "Some 100" and h = "Some 50" and lines = "[]"]
  have l: "label_from_instance ex_blank ''class'' = Some []"
    by (simp add: ex_defs label_from_instance_def)
  have h4: "label_from_instance ex_blank ''class'' = Some [] \<and>
      process_instance ex_fs True ''class'' ?src ex_blank (ex_state, Some 100, Some 50, []) =
        Inr (?s', Some 100, Some 50, [(0, 7 / 20, 1 / 2, 1 / 2, 3 / 5)])"
    by (simp add: ex_defs process_instance_def label_from_instance_def class_id_def
          resolve_dims_def yolo_bbox_def Let_def unpack_bbox_def float_bbox_def)
  have h5: "label_from_instance ex_blank ''class'' = Some [] \<and>
      bbox ex_blank = Some (JArr [JNum 10, JNum 10, JNum 60, JNum 40]) \<and>
      resolve_dims ex_fs ?src (Some 100) (Some 50) = Some (100, 50) \<and>
      yolo_bbox 10 10 60 40 100 50 = Inr (7 / 20, 1 / 2, 1 / 2, 3 / 5) \<and>
      (0::real) < 1 / 2 \<and> (0::real) < 3 / 5"
    by (simp add: ex_defs label_from_instance_def resolve_dims_def yolo_bbox_def Let_def unpack_bbox_def float_bbox_def)
  have h9: "truthy (class_field ex_car)"
    by (simp add: ex_defs truthy_def)
  have c4: "map_of (classes ?s') [] = Some (cid_of ex_state [])"
    by (rule t [where inst = ex_blank, THEN conjunct2, THEN conjunct2, THEN conjunct2,
          THEN conjunct1, THEN mp, OF h4])
  have c5: "process_instance ex_fs True ''class'' ?src ex_blank (ex_state, Some 100, Some 50, []) =
     Inr (register [] ex_state, Some 100, Some 50,
          [] @ [(cid_of ex_state [], 7 / 20, 1 / 2, 1 / 2, 3 / 5)])"
    by (rule t [where inst = ex_blank, THEN conjunct2, THEN conjunct2, THEN conjunct2,
          THEN conjunct2, THEN conjunct1, THEN mp, OF h5])
  have c9: "label_from_instance (ex_car\<lparr>subclass_field := Some []\<rparr>) ''class_subclass'' =
      class_field ex_car"
    by (rule t [where inst = ex_car, THEN conjunct2, THEN conjunct2, THEN conjunct2,
          THEN conjunct2, THEN conjunct2, THEN conjunct2, THEN conjunct2, THEN conjunct2,
          THEN mp, OF h9, THEN conjunct1])
  from l c4 c5 h9 c9 show ?thesis
    by blast
qed

subsection \<open>Resolving the image of an entry\<close>

lemma filter_find_None: "filter P xs = [] \<longleftrightarrow> List.find P xs = None"
  by (induction xs) auto

lemma filter_find_Some: "filter P xs = b # bs \<Longrightarrow> List.find P xs = Some b"
  by (induction xs) (auto split: if_splits)

lemma glob_search_none:
  "(\<forall>ext \<in> set exts. fs_glob fs scene_dir (''*'' @ ext) = []) \<Longrightarrow>
   glob_search fs scene_dir exts = None"
  by (induction exts) (simp_all add: Let_def)

lemma glob_search_skip:
  "(\<forall>e \<in> set pre. fs_glob fs scene_dir (''*'' @ e) = []) \<Longrightarrow>
   glob_search fs scene_dir (pre @ exts) = glob_search fs scene_dir exts"
  by (induction pre) (simp_all add: Let_def)

lemma glob_search_hit:
  assumes "fs_glob fs scene_dir (''*'' @ ext) = c # cs"
  shows "glob_search fs scene_dir (ext # post) =
         Some (case List.find (\<lambda>p. prefix ''beauty.'' (pname p)) (c # cs) of
                 Some b \<Rightarrow> b | None \<Rightarrow> c)"
proof (cases "filter (\<lambda>p. prefix ''beauty.'' (pname p)) (c # cs)")
  case Nil
  then have "List.find (\<lambda>p. prefix ''beauty.'' (pname p)) (c # cs) = None"
    by (simp only: filter_find_None)
  with Nil assms show ?thesis
    by (simp add: Let_def del: filter.simps find.simps)
next
  case (Cons b bs)
  then have "List.find (\<lambda>p. prefix ''beauty.'' (pname p)) (c # cs) = Some b"
    by (rule filter_find_Some)
  with Cons assms show ?thesis
    by (simp add: Let_def del: filter.simps find.simps)
qed

text \<open>
  C9: resolution is first match wins over three steps. With a declared (non-empty)
  filename, the declared path relative to the scene directory is returned if it
  exists; failing that, its final component relative to the scene directory if that
  exists. Otherwise (no filename, an empty one, or neither path exists) the
  extensions are tried in the order given: the first extension whose glob is not
  empty decides, giving the first match whose name starts with \<open>beauty.\<close> and else
  the first match; when every glob is empty the image is absent.
\<close>

theorem C9_resolution_order:
  "(fname = Some f \<and> f \<noteq> [] \<and> fs_exists fs (pjoin scene_dir (parts f)) \<longrightarrow>
      resolve_image_path fs scene_dir fname exts = Some (pjoin scene_dir (parts f))) \<and>
   (fname = Some f \<and> f \<noteq> [] \<and> \<not> fs_exists fs (pjoin scene_dir (parts f)) \<and>
    fs_exists fs (pjoin scene_dir (parts (pname (parts f)))) \<longrightarrow>
      resolve_image_path fs scene_dir fname exts =
        Some (pjoin scene_dir (parts (pname (parts f))))) \<and>
   (fname = None \<or> fname = Some [] \<or>
    (fname = Some f \<and> \<not> fs_exists fs (pjoin scene_dir (parts f)) \<and>
     \<not> fs_exists fs (pjoin scene_dir (parts (pname (parts f))))) \<longrightarrow>
      resolve_image_path fs scene_dir fname exts = glob_search fs scene_dir exts) \<and>
   ((\<forall>e \<in> set pre. fs_glob fs scene_dir (''*'' @ e) = []) \<and>
    fs_glob fs scene_dir (''*'' @ ext) = c # cs \<longrightarrow>
      glob_search fs scene_dir (pre @ ext # post) =
        Some (case List.find (\<lambda>p. prefix ''beauty.'' (pname p)) (c # cs) of
                Some b \<Rightarrow> b | None \<Rightarrow> c)) \<and>
   ((\<forall>e \<in> set exts. fs_glob fs scene_dir (''*'' @ e) = []) \<longrightarrow>
      glob_search fs scene_dir exts = None)"
proof (intro conjI impI)
  assume "fname = Some f \<and> f \<noteq> [] \<and> fs_exists fs (pjoin scene_dir (parts f))"
  then show "resolve_image_path fs scene_dir fname exts = Some (pjoin scene_dir (parts f))"
    by (simp add: resolve_image_path_def)
next
  assume "fname = Some f \<and> f \<noteq> [] \<and> \<not> fs_exists fs (pjoin scene_dir (parts f)) \<and>
    fs_exists fs (pjoin scene_dir (parts (pname (parts f))))"
  then show "resolve_image_path fs scene_dir fname exts =
        Some (pjoin scene_dir (parts (pname (parts f))))"
    by (simp add: resolve_image_path_def)
next
  assume "fname = None \<or> fname = Some [] \<or>
    (fname = Some f \<and> \<not> fs_exists fs (pjoin scene_dir (parts f)) \<and>
     \<not> fs_exists fs (pjoin scene_dir (parts (pname (parts f)))))"
  then show "resolve_image_path fs scene_dir fname exts = glob_search fs scene_dir exts"
    by (auto simp: resolve_image_path_def)
next
  assume a: "(\<forall>e \<in> set pre. fs_glob fs scene_dir (''*'' @ e) = []) \<and>
    fs_glob fs scene_dir (''*'' @ ext) = c # cs"
  then have "glob_search fs scene_dir (pre @ ext # post) = glob_search fs scene_dir (ext # post)"
    by (simp add: glob_search_skip)
  with a show "glob_search fs scene_dir (pre @ ext # post) =
        Some (case List.find (\<lambda>p. prefix ''beauty.'' (pname p)) (c # cs) of
                Some b \<Rightarrow> b | None \<Rightarrow> c)"
    by (simp only: glob_search_hit)
next
  assume "\<forall>e \<in> set exts. fs_glob fs scene_dir (''*'' @ e) = []"
  then show "glob_search fs scene_dir exts = None"
    by (rule glob_search_none)
qed

theorem C9_resolution_order_example:
  "resolve_image_path ex_fs dir_a (Some ''beauty.0001.png'') [''.jpg''] =
     Some (dir_a @ [''beauty.0001.png'']) \<and>
   resolve_image_path ex_fs dir_a (Some ''renders/beauty.0001.png'') [''.jpg''] =
     Some (dir_a @ [''beauty.0001.png'']) \<and>
   resolve_image_path ex_fs_mixed dir_a None [''.jpg'', ''.png'', ''.jpeg''] =
     glob_search ex_fs_mixed dir_a [''.jpg'', ''.png'', ''.jpeg''] \<and>
   glob_search ex_fs_mixed dir_a ([''.jpg''] @ ''.png'' # [''.jpeg'']) =
     Some (dir_a @ [''beauty.0001.png'']) \<and>
   glob_search ex_fs dir_a [''.jpg''] = None"
proof -
  have h1: "Some ''beauty.0001.png'' = Some ''beauty.0001.png'' \<and> ''beauty.0001.png'' \<noteq> [] \<and>
      fs_exists ex_fs (pjoin dir_a (parts ''beauty.0001.png''))"
    by (simp add: ex_defs parts_def pjoin_def)
  have h2: "Some ''renders/beauty.0001.png'' = Some ''renders/beauty.0001.png'' \<and>
      ''renders/beauty.0001.png'' \<noteq> [] \<and>
      \<not> fs_exists ex_fs (pjoin dir_a (parts ''renders/beauty.0001.png'')) \<and>
      fs_exists ex_fs (pjoin dir_a (parts (pname (parts ''renders/beauty.0001.png''))))"
    by (simp add: ex_defs parts_def pjoin_def pname_def)
  have h3: "(None :: string option) = None \<or> (None :: string option) = Some [] \<or>
      ((None :: string option) = Some [] \<and> \<not> fs_exists ex_fs_mixed (pjoin dir_a (parts [])) \<and>
       \<not> fs_exists ex_fs_mixed (pjoin dir_a (parts (pname (parts [])))))"
    by simp
  have h4: "(\<forall>e \<in> set [''.jpg'']. fs_glob ex_fs_mixed dir_a (''*'' @ e) = []) \<and>
      fs_glob ex_fs_mixed dir_a (''*'' @ ''.png'') =
        (dir_a @ [''albedo.png'']) # [dir_a @ [''beauty.0001.png'']]"
    by (simp add: ex_fs_mixed_def ex_defs)
  have h5: "\<forall>e \<in> set [''.jpg'']. fs_glob ex_fs dir_a (''*'' @ e) = []"
    by (simp add: ex_defs)
  have c1: "resolve_image_path ex_fs dir_a (Some ''beauty.0001.png'') [''.jpg''] =
      Some (pjoin dir_a (parts ''beauty.0001.png''))"
    by (rule C9_resolution_order [THEN conjunct1, THEN mp, OF h1])
  have c2: "resolve_image_path ex_fs dir_a (Some ''renders/beauty.0001.png'') [''.jpg''] =
      Some (pjoin dir_a (parts (pname (parts ''renders/beauty.0001.png''))))"
    by (rule C9_resolution_order [THEN conjunct2, THEN conjunct1, THEN mp, OF h2])
  have c3: "resolve_image_path ex_fs_mixed dir_a None [''.jpg'', ''.png'', ''.jpeg''] =
      glob_search ex_fs_mixed dir_a [''.jpg'', ''.png'', ''.jpeg'']"
    by (rule C9_resolution_order [THEN conjunct2, THEN conjunct2, THEN conjunct1, THEN mp, OF h3])
  have c4: "glob_search ex_fs_mixed dir_a ([''.jpg''] @ ''.png'' # [''.jpeg'']) =
      Some (case List.find (\<lambda>p. prefix ''beauty.'' (pname p))
                  ((dir_a @ [''albedo.png'']) # [dir_a @ [''beauty.0001.png'']]) of
              Some b \<Rightarrow> b | None \<Rightarrow> dir_a @ [''albedo.png''])"
    by (rule C9_resolution_order [where fname = None and f = "[]",
          THEN conjunct2, THEN conjunct2, THEN conjunct2, THEN conjunct1, THEN mp, OF h4])
  have c5: "glob_search ex_fs dir_a [''.jpg''] = None"
    by (rule C9_resolution_order [where fname = None and f = "[]" and pre = "[]"
          and ext = "[]" and c = "[]" and cs = "[]" and post = "[]",
          THEN conjunct2, THEN conjunct2, THEN conjunct2, THEN conjunct2, THEN mp, OF h5])
  have e1: "pjoin dir_a (parts ''beauty.0001.png'') = dir_a @ [''beauty.0001.png'']"
    by (simp add: parts_def pjoin_def)
  have e2: "pjoin dir_a (parts (pname (parts ''renders/beauty.0001.png''))) =
      dir_a @ [''beauty.0001.png'']"
    by (simp add: parts_def pjoin_def pname_def)
  have e4: "(case List.find (\<lambda>p. prefix ''beauty.'' (pname p))
                  ((dir_a @ [''albedo.png'']) # [dir_a @ [''beauty.0001.png'']]) of
              Some b \<Rightarrow> b | None \<Rightarrow> dir_a @ [''albedo.png'']) = dir_a @ [''beauty.0001.png'']"
    by (simp add: pname_def dir_a_def)
  from c1 c2 c3 c4 c5 show ?thesis
    unfolding e1 e2 e4 by blast
qed

subsection \<open>The registry along a run\<close>

lemma registry_ok_length: "registry_ok cls nxt \<Longrightarrow> length cls = nxt"
proof -
  assume "registry_ok cls nxt"
  then have "length (map snd cls) = length [0..<nxt]" by (simp add: registry_ok_def)
  then show ?thesis by simp
qed

lemma registry_ok_bound: "registry_ok cls nxt \<Longrightarrow> (l, i) \<in> set cls \<Longrightarrow> i < nxt"
proof -
  assume a: "registry_ok cls nxt" "(l, i) \<in> set cls"
  then have "i \<in> set (map snd cls)" by force
  with a(1) show ?thesis by (simp add: registry_ok_def)
qed

lemma class_id_registry_ok:
  assumes "registry_ok cls nxt"
  shows "registry_ok (fst (class_id cls nxt lab)) (fst (snd (class_id cls nxt lab)))"
proof (cases "map_of cls lab")
  case None
  then have "lab \<notin> fst ` set cls" by (simp add: map_of_eq_None_iff)
  with assms None show ?thesis by (simp add: class_id_def registry_ok_def)
next
  case (Some cid)
  with assms show ?thesis by (simp add: class_id_def)
qed

lemma class_id_prefix: "prefix cls (fst (class_id cls nxt lab))"
  by (cases "map_of cls lab") (simp_all add: class_id_def)

lemma register_registry_ok:
  "registry_ok (classes s) (next_cid s) \<Longrightarrow>
   registry_ok (classes (register lab s)) (next_cid (register lab s))"
  by (simp add: register_def class_id_registry_ok)

lemma register_prefix: "prefix (classes s) (classes (register lab s))"
  by (simp add: register_def class_id_prefix)

lemma process_instance_registry:
  assumes "process_instance fs strict lf src inst (s, w, h, lines) = Inr (s', w', h', lines')"
  shows "(registry_ok (classes s) (next_cid s) \<longrightarrow> registry_ok (classes s') (next_cid s')) \<and>
         prefix (classes s) (classes s')"
proof (cases "label_from_instance inst lf")
  case None
  with assms have "s' = skip_instance s" by (simp add: process_instance_no_label)
  then show ?thesis by (simp add: skip_instance_def)
next
  case (Some lab)
  from process_instance_cases [OF Some assms]
  have "classes s' = classes (register lab s)" "next_cid s' = next_cid (register lab s)"
    by simp_all
  then show ?thesis
    using register_registry_ok [of s lab] register_prefix [of s lab] by simp
qed

lemma process_instances_registry:
  "process_instances fs strict lf src insts (s, w, h, lines) = Inr (s', w', h', lines') \<Longrightarrow>
   (registry_ok (classes s) (next_cid s) \<longrightarrow> registry_ok (classes s') (next_cid s')) \<and>
   prefix (classes s) (classes s')"
proof (induction insts arbitrary: s w h lines)
  case Nil
  then show ?case by simp
next
  case (Cons inst insts)
  from Cons.prems obtain s1 w1 h1 lines1 where
    a: "process_instance fs strict lf src inst (s, w, h, lines) = Inr (s1, w1, h1, lines1)" and
    b: "process_instances fs strict lf src insts (s1, w1, h1, lines1) = Inr (s', w', h', lines')"
    by (auto split: sum.splits)
  from process_instance_registry [OF a] Cons.IH [OF b] show ?case
    by (auto intro: prefix_order.trans)
qed

lemma process_image_registry:
  assumes "process_image fs strict lf exts scene_dir per_image entry s = Inr s'"
  shows "(registry_ok (classes s) (next_cid s) \<longrightarrow> registry_ok (classes s') (next_cid s')) \<and>
         prefix (classes s) (classes s')"
  using assms
  by (auto simp: process_image_def Let_def dest!: process_instances_registry
           split: prod.splits option.splits sum.splits if_splits)

lemma process_images_registry:
  "process_images fs strict lf exts scene_dir per_image entries s = Inr s' \<Longrightarrow>
   (registry_ok (classes s) (next_cid s) \<longrightarrow> registry_ok (classes s') (next_cid s')) \<and>
   prefix (classes s) (classes s')"
proof (induction entries arbitrary: s)
  case Nil
  then show ?case by simp
next
  case (Cons entry entries)
  from Cons.prems obtain s1 where
    a: "process_image fs strict lf exts scene_dir per_image entry s = Inr s1" and
    b: "process_images fs strict lf exts scene_dir per_image entries s1 = Inr s'"
    by (auto split: sum.splits)
  from process_image_registry [OF a] Cons.IH [OF b] show ?case
    by (auto intro: prefix_order.trans)
qed

lemma process_scene_registry:
  assumes "process_scene fs strict lf exts scene s = Inr s'"
  shows "(registry_ok (classes s) (next_cid s) \<longrightarrow> registry_ok (classes s') (next_cid s')) \<and>
         prefix (classes s) (classes s')"
  using assms
  by (auto simp: process_scene_def Let_def dest!: process_images_registry
           split: prod.splits option.splits sum.splits if_splits)

lemma process_scenes_registry:
  "process_scenes fs strict lf exts scenes s = Inr s' \<Longrightarrow>
   (registry_ok (classes s) (next_cid s) \<longrightarrow> registry_ok (classes s') (next_cid s')) \<and>
   prefix (classes s) (classes s')"
proof (induction scenes arbitrary: s)
  case Nil
  then show ?case by simp
next
  case (Cons scene scenes)
  from Cons.prems obtain s1 where
    a: "process_scene fs strict lf exts scene s = Inr s1" and
    b: "process_scenes fs strict lf exts scenes s1 = Inr s'"
    by (auto split: sum.splits)
  from process_scene_registry [OF a] Cons.IH [OF b] show ?case
    by (auto intro: prefix_order.trans)
qed

lemma invert_classes_positions:
  "map snd kvs = [n..<n + length kvs] \<Longrightarrow> n + length kvs \<le> length inv_list \<Longrightarrow>
   invert_classes kvs inv_list =
     Inr (take n inv_list @ map (\<lambda>kv. Some (fst kv)) kvs @ drop (n + length kvs) inv_list)"
proof (induction kvs arbitrary: n inv_list)
  case Nil
  then show ?case by simp
next
  case (Cons kv kvs)
  obtain k v where kv: "kv = (k, v)" by (cases kv)
  from Cons.prems(1) kv have v: "v = n" and rest: "map snd kvs = [Suc n..<Suc n + length kvs]"
    by (simp_all add: upt_rec)
  from Cons.prems(2) have len: "Suc n + length kvs \<le> length (inv_list[n := Some k])" "n < length inv_list"
    by simp_all
  from Cons.IH [OF rest len(1)] have
    "invert_classes kvs (inv_list[n := Some k]) =
       Inr (take (Suc n) (inv_list[n := Some k]) @ map (\<lambda>kv. Some (fst kv)) kvs @
            drop (Suc n + length kvs) (inv_list[n := Some k]))" .
  moreover have "take (Suc n) (inv_list[n := Some k]) = take n inv_list @ [Some k]"
    using len(2) by (simp add: take_Suc_conv_app_nth)
  moreover have "drop (Suc n + length kvs) (inv_list[n := Some k]) =
      drop (Suc n + length kvs) inv_list"
    by simp
  ultimately show ?case
    using kv v len(2) by simp
qed

lemma invert_classes_registry:
  assumes "registry_ok cls nxt"
  shows "invert_classes cls (replicate (length cls) None) = Inr (map (\<lambda>kv. Some (fst kv)) cls)"
proof -
  from assms have "map snd cls = [0..<0 + length cls]"
    using registry_ok_length [OF assms] by (simp add: registry_ok_def)
  from invert_classes_positions [OF this, of "replicate (length cls) None"] show ?thesis
    by simp
qed

lemma write_data_yaml_registry:
  assumes "registry_ok cls nxt"
  shows "write_data_yaml (map (\<lambda>kv. Some (fst kv)) cls) = map (\<lambda>(l, i). (i, Some l)) cls"
proof -
  from assms have s: "map snd cls = [0..<length cls]"
    using registry_ok_length [OF assms] by (simp add: registry_ok_def)
  show ?thesis
  proof (rule nth_equalityI)
    show "length (write_data_yaml (map (\<lambda>kv. Some (fst kv)) cls)) =
          length (map (\<lambda>(l, i). (i, Some l)) cls)"
      by (simp add: write_data_yaml_def)
  next
    fix i assume "i < length (write_data_yaml (map (\<lambda>kv. Some (fst kv)) cls))"
    then have i: "i < length cls" by (simp add: write_data_yaml_def)
    then have "snd (cls ! i) = [0..<length cls] ! i"
      using s by (metis nth_map)
    with i have "snd (cls ! i) = i" by simp
    with i show "write_data_yaml (map (\<lambda>kv. Some (fst kv)) cls) ! i =
          map (\<lambda>(l, i). (i, Some l)) cls ! i"
      by (simp add: write_data_yaml_def case_prod_unfold)
  qed
qed

subsection \<open>First-seen order of the class ids\<close>

text \<open>
  C3: after any run from the empty registry, the ids are the positions of the labels
  in first-seen order (0, 1, 2, ... without gaps, no label twice) and the counter is
  the number of labels. Looking up a label that is not present stores it with the
  current counter, which is larger than every id present, and increments the
  counter; looking up a label that is present returns its id and changes nothing. A
  lookup, and any continuation of the run, only appends to the registry. The names
  section of the manifest is the list of labels in ascending id, each with its id.
\<close>

theorem C3_registry_first_seen:
  assumes "process_scenes fs strict lf exts scenes (initial_state imgs lbls) = Inr s"
  shows "map snd (classes s) = [0..<length (classes s)] \<and>
     next_cid s = length (classes s) \<and> distinct (map fst (classes s)) \<and>
     (\<forall>lab. map_of (classes s) lab = None \<longrightarrow>
        class_id (classes s) (next_cid s) lab =
          (classes s @ [(lab, next_cid s)], next_cid s + 1, next_cid s) \<and>
        (\<forall>(l, i) \<in> set (classes s). i < next_cid s)) \<and>
     (\<forall>lab i. (lab, i) \<in> set (classes s) \<longrightarrow>
        class_id (classes s) (next_cid s) lab = (classes s, next_cid s, i)) \<and>
     (\<forall>cls nxt lab. prefix cls (fst (class_id cls nxt lab))) \<and>
     (\<forall>more s'. process_scenes fs strict lf exts more s = Inr s' \<longrightarrow>
        prefix (classes s) (classes s')) \<and>
     main fs strict lf exts scenes imgs lbls = Inr (s, map (\<lambda>(l, i). (i, Some l)) (classes s))"
proof -
  have "registry_ok (classes (initial_state imgs lbls)) (next_cid (initial_state imgs lbls))"
    by (simp add: initial_state_def registry_ok_def)
  with process_scenes_registry [OF assms] have ok: "registry_ok (classes s) (next_cid s)"
    by simp
  have len: "length (classes s) = next_cid s"
    using ok by (rule registry_ok_length)
  have 1: "map snd (classes s) = [0..<length (classes s)]"
    using ok len by (simp add: registry_ok_def)
  have 2: "next_cid s = length (classes s)"
    using len by simp
  have 3: "distinct (map fst (classes s))"
    using ok by (simp add: registry_ok_def)
  have 4: "\<forall>lab. map_of (classes s) lab = None \<longrightarrow>
        class_id (classes s) (next_cid s) lab =
          (classes s @ [(lab, next_cid s)], next_cid s + 1, next_cid s) \<and>
        (\<forall>(l, i) \<in> set (classes s). i < next_cid s)"
    using registry_ok_bound [OF ok] by (auto simp: class_id_new)
  have 5: "\<forall>lab i. (lab, i) \<in> set (classes s) \<longrightarrow>
        class_id (classes s) (next_cid s) lab = (classes s, next_cid s, i)"
    using 3 by (auto simp: class_id_old)
  have 6: "\<forall>cls nxt lab. prefix cls (fst (class_id cls nxt lab))"
    by (simp add: class_id_prefix)
  have 7: "\<forall>more s'. process_scenes fs strict lf exts more s = Inr s' \<longrightarrow>
        prefix (classes s) (classes s')"
    using process_scenes_registry by blast
  have 8: "main fs strict lf exts scenes imgs lbls = Inr (s, map (\<lambda>(l, i). (i, Some l)) (classes s))"
    using assms invert_classes_registry [OF ok] write_data_yaml_registry [OF ok]
    by (simp add: main_def)
  from 1 2 3 4 5 6 7 8 show ?thesis
    by blast
qed

theorem C3_registry_first_seen_example:
  "process_scenes ex_fs False ''class'' [''.png''] [ex_scene_two] (initial_state Map.empty Map.empty) =
     Inr ex_state_two \<and>
   main ex_fs False ''class'' [''.png''] [ex_scene_two] Map.empty Map.empty =
     Inr (ex_state_two, [(0, Some ''car''), (1, Some ''truck'')]) \<and>
   class_id (classes ex_state_two) (next_cid ex_state_two) ''bus'' =
     ([(''car'', 0), (''truck'', 1), (''bus'', 2)], 3, 2) \<and>
   class_id (classes ex_state_two) (next_cid ex_state_two) ''truck'' =
     ([(''car'', 0), (''truck'', 1)], 2, 1)"
proof -
  have h: "process_scenes ex_fs False ''class'' [''.png''] [ex_scene_two]
      (initial_state Map.empty Map.empty) = Inr ex_state_two"
    by (simp add: ex_scene_two_def ex_state_two_def ex_defs run_defs)
  note t = C3_registry_first_seen [OF h]
  have cls: "classes ex_state_two = [(''car'', 0), (''truck'', 1)]" "next_cid ex_state_two = 2"
    by (simp_all add: ex_state_two_def)
  from t have "main ex_fs False ''class'' [''.png''] [ex_scene_two] Map.empty Map.empty =
      Inr (ex_state_two, map (\<lambda>(l, i). (i, Some l)) (classes ex_state_two))"
    by blast
  then have c1: "main ex_fs False ''class'' [''.png''] [ex_scene_two] Map.empty Map.empty =
      Inr (ex_state_two, [(0, Some ''car''), (1, Some ''truck'')])"
    by (simp add: cls)
  from t have "map_of (classes ex_state_two) ''bus'' = None \<longrightarrow>
      class_id (classes ex_state_two) (next_cid ex_state_two) ''bus'' =
        (classes ex_state_two @ [(''bus'', next_cid ex_state_two)], next_cid ex_state_two + 1,
         next_cid ex_state_two)"
    by blast
  then have c2: "class_id (classes ex_state_two) (next_cid ex_state_two) ''bus'' =
      ([(''car'', 0), (''truck'', 1), (''bus'', 2)], 3, 2)"
    by (simp add: cls)
  from t have "(''truck'', 1) \<in> set (classes ex_state_two) \<longrightarrow>
      class_id (classes ex_state_two) (next_cid ex_state_two) ''truck'' =
        (classes ex_state_two, next_cid ex_state_two, 1)"
    by blast
  then have c3: "class_id (classes ex_state_two) (next_cid ex_state_two) ''truck'' =
      ([(''car'', 0), (''truck'', 1)], 2, 1)"
    by (simp add: cls)
  from h c1 c2 c3 show ?thesis
    by blast
qed

subsection \<open>Writing the label file\<close>

lemma process_instance_frame:
  assumes "process_instance fs strict lf src inst (s, w, h, lines) = Inr (s', w', h', lines')"
  shows "st_images s' = st_images s \<and> st_instances s' = st_instances s \<and>
         st_scenes s' = st_scenes s \<and> out_labels s' = out_labels s \<and>
         out_images s' = out_images s"
  using assms
  by (auto simp: process_instance_def skip_instance_def Let_def
           split: prod.splits option.splits sum.splits if_splits)

lemma process_instances_frame:
  "process_instances fs strict lf src insts (s, w, h, lines) = Inr (s', w', h', lines') \<Longrightarrow>
   st_images s' = st_images s \<and> st_instances s' = st_instances s \<and>
   st_scenes s' = st_scenes s \<and> out_labels s' = out_labels s \<and>
   out_images s' = out_images s"
proof (induction insts arbitrary: s w h lines)
  case Nil
  then show ?case by simp
next
  case (Cons inst insts)
  from Cons.prems obtain s1 w1 h1 lines1 where
    a: "process_instance fs strict lf src inst (s, w, h, lines) = Inr (s1, w1, h1, lines1)" and
    b: "process_instances fs strict lf src insts (s1, w1, h1, lines1) = Inr (s', w', h', lines')"
    by (auto split: sum.splits)
  from process_instance_frame [OF a] Cons.IH [OF b] show ?case
    by simp
qed

lemma unpack_bbox_array_of_numbers:
  "unpack_bbox (Some (JArr (map JNum xs))) = Inr None \<or>
   (\<exists>a b c d. unpack_bbox (Some (JArr (map JNum xs))) = Inr (Some (JNum a, JNum b, JNum c, JNum d)))"
proof (cases "length xs = 4")
  case True
  then obtain a b c d where "xs = [a, b, c, d]"
    unfolding length_four by blast
  then show ?thesis by (simp add: unpack_bbox_def)
next
  case False
  then show ?thesis by (simp add: unpack_bbox_def)
qed

lemma process_instance_declared:
  assumes "wv \<noteq> 0" "hv \<noteq> 0"
    and "bbox inst = None \<or> (\<exists>xs. bbox inst = Some (JArr (map JNum xs)))"
  shows "\<exists>s' lines'. process_instance fs strict lf src inst (s, Some wv, Some hv, lines) =
           Inr (s', Some wv, Some hv, lines')"
proof -
  from assms(3) unpack_bbox_array_of_numbers consider
      "unpack_bbox (bbox inst) = Inr None"
    | a b c d where "unpack_bbox (bbox inst) = Inr (Some (JNum a, JNum b, JNum c, JNum d))"
    by (metis unpack_bbox_skip)
  then show ?thesis
  proof cases
    case 1
    then show ?thesis
      by (auto simp: process_instance_def Let_def split: prod.splits option.splits)
  next
    case 2
    with assms(1,2) show ?thesis
      by (auto simp: process_instance_def resolve_dims_def yolo_bbox_def float_bbox_def Let_def
               split: prod.splits option.splits)
  qed
qed

lemma process_instances_declared:
  assumes "wv \<noteq> 0" "hv \<noteq> 0"
  shows "\<forall>inst \<in> set insts. bbox inst = None \<or> (\<exists>xs. bbox inst = Some (JArr (map JNum xs))) \<Longrightarrow>
         \<exists>s' lines'. process_instances fs strict lf src insts (s, Some wv, Some hv, lines) =
           Inr (s', Some wv, Some hv, lines')"
proof (induction insts arbitrary: s lines)
  case Nil
  then show ?case by simp
next
  case (Cons inst insts)
  from Cons.prems have
    "bbox inst = None \<or> (\<exists>xs. bbox inst = Some (JArr (map JNum xs)))"
    by simp
  from process_instance_declared [OF assms this, of fs strict lf src s lines]
  obtain s1 lines1 where
    "process_instance fs strict lf src inst (s, Some wv, Some hv, lines) =
       Inr (s1, Some wv, Some hv, lines1)"
    by blast
  with Cons.IH [of s1 lines1] Cons.prems show ?case by simp
qed

lemma process_image_resolved:
  assumes "resolve_image_path fs scene_dir fname exts = Some src" "fs_exists fs src"
    and "map_of per_image iid = Some insts"
  shows "process_image fs strict lf exts scene_dir per_image (iid, fname, w, h) s =
    (case process_instances fs strict lf src insts
            (if out_images s (pname scene_dir @ ''_'' @ pname src) = None
             then s\<lparr>out_images := (out_images s)(pname scene_dir @ ''_'' @ pname src \<mapsto> fs_read fs src)\<rparr>
             else s, w, h, []) of
       Inl e \<Rightarrow> Inl e
     | Inr (s2, w', h', lines) \<Rightarrow>
         Inr (s2\<lparr>out_labels := (out_labels s2)
                   (stem (pname scene_dir @ ''_'' @ pname src) @ ''.txt'' \<mapsto> lines),
                 st_images := st_images s2 + 1,
                 st_instances := st_instances s2 + length lines\<rparr>))"
  using assms by (simp add: process_image_def Let_def del: append.simps)

text \<open>
  C8: for an image that resolves, the label file is written whenever the instance
  loop completes: it holds exactly the lines the loop emitted, the images counter
  grows by one and the instances counter by the number of those lines. With no
  instance attached the loop always completes and the file is empty; with declared
  non-zero width and height, and every bbox missing or an array of numbers, the
  loop completes in both modes.
\<close>

theorem C8_label_file_written:
  "(resolve_image_path fs scene_dir fname exts = Some src \<and> fs_exists fs src \<and>
    map_of per_image iid = Some insts \<and>
    process_instances fs strict lf src insts
       (if out_images s (pname scene_dir @ ''_'' @ pname src) = None
        then s\<lparr>out_images := (out_images s)(pname scene_dir @ ''_'' @ pname src \<mapsto> fs_read fs src)\<rparr>
        else s, w, h, []) = Inr (s2, w', h', lines) \<longrightarrow>
      (\<exists>s'. process_image fs strict lf exts scene_dir per_image (iid, fname, w, h) s = Inr s' \<and>
         out_labels s' (stem (pname scene_dir @ ''_'' @ pname src) @ ''.txt'') = Some lines \<and>
         st_images s' = st_images s + 1 \<and>
         st_instances s' = st_instances s + length lines)) \<and>
   (resolve_image_path fs scene_dir fname exts = Some src \<and> fs_exists fs src \<and>
    map_of per_image iid = Some [] \<longrightarrow>
      (\<exists>s'. process_image fs strict lf exts scene_dir per_image (iid, fname, w, h) s = Inr s' \<and>
         out_labels s' (stem (pname scene_dir @ ''_'' @ pname src) @ ''.txt'') = Some [] \<and>
         st_images s' = st_images s + 1 \<and> st_instances s' = st_instances s)) \<and>
   (resolve_image_path fs scene_dir fname exts = Some src \<and> fs_exists fs src \<and>
    map_of per_image iid = Some insts \<and> wv \<noteq> 0 \<and> hv \<noteq> 0 \<and>
    (\<forall>inst \<in> set insts. bbox inst = None \<or> (\<exists>xs. bbox inst = Some (JArr (map JNum xs)))) \<longrightarrow>
      (\<exists>s' lines. process_image fs strict lf exts scene_dir per_image
            (iid, fname, Some wv, Some hv) s = Inr s' \<and>
         out_labels s' (stem (pname scene_dir @ ''_'' @ pname src) @ ''.txt'') = Some lines \<and>
         st_images s' = st_images s + 1 \<and>
         st_instances s' = st_instances s + length lines))"
proof (intro conjI impI)
  let ?new = "pname scene_dir @ ''_'' @ pname src"
  let ?s1 = "if out_images s ?new = None
        then s\<lparr>out_images := (out_images s)(?new \<mapsto> fs_read fs src)\<rparr> else s"
  have s1: "st_images ?s1 = st_images s" "st_instances ?s1 = st_instances s"
    by simp_all
  {
    fix insts w h s2 w' h' lines
    assume r: "resolve_image_path fs scene_dir fname exts = Some src" "fs_exists fs src"
      "map_of per_image iid = Some insts"
      and l: "process_instances fs strict lf src insts (?s1, w, h, []) = Inr (s2, w', h', lines)"
    from process_instances_frame [OF l] s1
    have f: "st_images s2 = st_images s" "st_instances s2 = st_instances s"
      by simp_all
    have "process_image fs strict lf exts scene_dir per_image (iid, fname, w, h) s =
        Inr (s2\<lparr>out_labels := (out_labels s2)(stem ?new @ ''.txt'' \<mapsto> lines),
                st_images := st_images s2 + 1,
                st_instances := st_instances s2 + length lines\<rparr>)"
      unfolding process_image_resolved [OF r] l by simp
    with f have "\<exists>s'. process_image fs strict lf exts scene_dir per_image (iid, fname, w, h) s = Inr s' \<and>
         out_labels s' (stem ?new @ ''.txt'') = Some lines \<and>
         st_images s' = st_images s + 1 \<and>
         st_instances s' = st_instances s + length lines"
      by simp
  }
  note main = this
  {
    assume "resolve_image_path fs scene_dir fname exts = Some src \<and> fs_exists fs src \<and>
      map_of per_image iid = Some insts \<and>
      process_instances fs strict lf src insts (?s1, w, h, []) = Inr (s2, w', h', lines)"
    then show "\<exists>s'. process_image fs strict lf exts scene_dir per_image (iid, fname, w, h) s = Inr s' \<and>
         out_labels s' (stem ?new @ ''.txt'') = Some lines \<and>
         st_images s' = st_images s + 1 \<and>
         st_instances s' = st_instances s + length lines"
      using main [of insts w h s2 w' h' lines] by blast
  }
  {
    assume a: "resolve_image_path fs scene_dir fname exts = Some src \<and> fs_exists fs src \<and>
      map_of per_image iid = Some []"
    have "process_instances fs strict lf src [] (?s1, w, h, []) = Inr (?s1, w, h, [])"
      by simp
    with a main [of "[]" w h ?s1 w h "[]"]
    show "\<exists>s'. process_image fs strict lf exts scene_dir per_image (iid, fname, w, h) s = Inr s' \<and>
         out_labels s' (stem ?new @ ''.txt'') = Some [] \<and>
         st_images s' = st_images s + 1 \<and> st_instances s' = st_instances s"
      by simp
  }
  {
    assume a: "resolve_image_path fs scene_dir fname exts = Some src \<and> fs_exists fs src \<and>
      map_of per_image iid = Some insts \<and> wv \<noteq> 0 \<and> hv \<noteq> 0 \<and>
      (\<forall>inst \<in> set insts. bbox inst = None \<or> (\<exists>xs. bbox inst = Some (JArr (map JNum xs))))"
    then have "wv \<noteq> 0" "hv \<noteq> 0"
      and "\<forall>inst \<in> set insts. bbox inst = None \<or> (\<exists>xs. bbox inst = Some (JArr (map JNum xs)))"
      by simp_all
    from process_instances_declared [OF this, of fs strict lf src ?s1 "[]"]
    obtain s2 lines where
      "process_instances fs strict lf src insts (?s1, Some wv, Some hv, []) =
         Inr (s2, Some wv, Some hv, lines)"
      by blast
    with a main [of insts "Some wv" "Some hv" s2 "Some wv" "Some hv" lines]
    show "\<exists>s' lines. process_image fs strict lf exts scene_dir per_image
            (iid, fname, Some wv, Some hv) s = Inr s' \<and>
         out_labels s' (stem ?new @ ''.txt'') = Some lines \<and>
         st_images s' = st_images s + 1 \<and>
         st_instances s' = st_instances s + length lines"
      by blast
  }
qed

theorem C8_label_file_written_example:
  "(resolve_image_path ex_fs dir_a (Some ''beauty.0001.png'') [''.png''] =
      Some (dir_a @ [''beauty.0001.png'']) \<and>
    fs_exists ex_fs (dir_a @ [''beauty.0001.png'']) \<and>
    stem (pname dir_a @ ''_'' @ pname (dir_a @ [''beauty.0001.png''])) @ ''.txt'' =
      ''sceneA_beauty.0001.txt'') \<and>
   (\<exists>s'. process_image ex_fs True ''class'' [''.png''] dir_a [(Some 1, [ex_car, ex_truck])]
          (Some 1, Some ''beauty.0001.png'', Some 100, Some 50) ex_state = Inr s' \<and>
      out_labels s' (stem (pname dir_a @ ''_'' @ pname (dir_a @ [''beauty.0001.png''])) @ ''.txt'') =
        Some [(0, 7 / 20, 1 / 2, 1 / 2, 3 / 5)] \<and>
      st_images s' = st_images ex_state + 1 \<and>
      st_instances s' = st_instances ex_state + length [(0::nat, 7 / 20 :: real, 1 / 2 :: real, 1 / 2 :: real, 3 / 5 :: real)]) \<and>
   (\<exists>s'. process_image ex_fs True ''class'' [''.png''] dir_a [(Some (1::nat), [])]
          (Some 1, Some ''beauty.0001.png'', None, None) ex_state = Inr s' \<and>
      out_labels s' (stem (pname dir_a @ ''_'' @ pname (dir_a @ [''beauty.0001.png''])) @ ''.txt'') =
        Some [] \<and>
      st_images s' = st_images ex_state + 1 \<and> st_instances s' = st_instances ex_state) \<and>
   (\<exists>s' lines. process_image ex_fs True ''class'' [''.png''] dir_a [(Some 1, [ex_far])]
          (Some 1, Some ''beauty.0001.png'', Some 100, Some 50) ex_state = Inr s' \<and>
      out_labels s' (stem (pname dir_a @ ''_'' @ pname (dir_a @ [''beauty.0001.png''])) @ ''.txt'') =
        Some lines \<and>
      st_images s' = st_images ex_state + 1 \<and>
      st_instances s' = st_instances ex_state + length lines)"
proof -
  let ?src = "dir_a @ [''beauty.0001.png'']"
  let ?new = "pname dir_a @ ''_'' @ pname ?src"
  let ?s1 = "if out_images ex_state ?new = None
        then ex_state\<lparr>out_images := (out_images ex_state)(?new \<mapsto> fs_read ex_fs ?src)\<rparr>
        else ex_state"
  have r: "resolve_image_path ex_fs dir_a (Some ''beauty.0001.png'') [''.png''] = Some ?src"
    "fs_exists ex_fs ?src"
    by (simp_all add: ex_defs resolve_image_path_def parts_def pjoin_def)
  have n: "stem ?new @ ''.txt'' = ''sceneA_beauty.0001.txt''"
    by (simp add: ex_defs pname_def stem_def)
  have l: "process_instances ex_fs True ''class'' ?src [ex_car, ex_truck]
        (?s1, Some 100, Some 50, []) =
      Inr (ex_state\<lparr>classes := [(''car'', 0), (''truck'', 1)], next_cid := 2,
                    st_skipped_instances := 1,
                    out_images := [''sceneA_beauty.0001.png'' \<mapsto> 1]\<rparr>,
           Some 100, Some 50, [(0, 7 / 20, 1 / 2, 1 / 2, 3 / 5)])"
    by (simp add: ex_defs pname_def process_instance_def label_from_instance_def class_id_def
          resolve_dims_def yolo_bbox_def skip_instance_def Let_def unpack_bbox_def float_bbox_def)
  have m1: "map_of [(Some (1::nat), [ex_car, ex_truck])] (Some 1) = Some [ex_car, ex_truck]"
    and m2: "map_of [(Some (1::nat), ([] :: nat instance_entry list))] (Some 1) = Some []"
    and m3: "map_of [(Some (1::nat), [ex_far])] (Some 1) = Some [ex_far]"
    by simp_all
  have z: "(100::real) \<noteq> 0" "(50::real) \<noteq> 0"
    by simp_all
  have "bbox ex_far = Some (JArr (map JNum [200, 10, 200, 40]))"
    by (simp add: ex_far_def)
  then have q: "\<forall>inst \<in> set [ex_far]. bbox inst = None \<or>
      (\<exists>xs. bbox inst = Some (JArr (map JNum xs)))"
    by (metis list.set_cases list.inject empty_iff empty_set)
  have c1: "\<exists>s'. process_image ex_fs True ''class'' [''.png''] dir_a [(Some 1, [ex_car, ex_truck])]
          (Some 1, Some ''beauty.0001.png'', Some 100, Some 50) ex_state = Inr s' \<and>
      out_labels s' (stem ?new @ ''.txt'') = Some [(0, 7 / 20, 1 / 2, 1 / 2, 3 / 5)] \<and>
      st_images s' = st_images ex_state + 1 \<and>
      st_instances s' = st_instances ex_state + length [(0::nat, 7 / 20 :: real, 1 / 2 :: real, 1 / 2 :: real, 3 / 5 :: real)]"
    using r m1 l by (intro C8_label_file_written [THEN conjunct1, THEN mp]) blast
  have c2: "\<exists>s'. process_image ex_fs True ''class'' [''.png''] dir_a [(Some (1::nat), [])]
          (Some 1, Some ''beauty.0001.png'', None, None) ex_state = Inr s' \<and>
      out_labels s' (stem ?new @ ''.txt'') = Some [] \<and>
      st_images s' = st_images ex_state + 1 \<and> st_instances s' = st_instances ex_state"
    using r m2 by (intro C8_label_file_written [THEN conjunct2, THEN conjunct1, THEN mp]) blast
  have c3: "\<exists>s' lines. process_image ex_fs True ''class'' [''.png''] dir_a [(Some 1, [ex_far])]
          (Some 1, Some ''beauty.0001.png'', Some 100, Some 50) ex_state = Inr s' \<and>
      out_labels s' (stem ?new @ ''.txt'') = Some lines \<and>
      st_images s' = st_images ex_state + 1 \<and>
      st_instances s' = st_instances ex_state + length lines"
    using r m3 z q by (intro C8_label_file_written [THEN conjunct2, THEN conjunct2, THEN mp]) blast
  from r n c1 c2 c3 show ?thesis
    by blast
qed

subsection \<open>Instances of images that the document does not declare\<close>


lemma attach_keys: "map fst (map (attach insts) pm) = map fst pm"
  by (induction pm) (simp_all add: attach_def)









lemma add_skipped_fields [simp]:
  "out_images (add_skipped k s) = out_images s" "out_labels (add_skipped k s) = out_labels s"
  "classes (add_skipped k s) = classes s" "next_cid (add_skipped k s) = next_cid s"
  "st_images (add_skipped k s) = st_images s" "st_instances (add_skipped k s) = st_instances s"
  "st_skipped_instances (add_skipped k s) = st_skipped_instances s + k"
  by (simp_all add: add_skipped_def)






subsection \<open>Two images with the same output name\<close>

text \<open>
  What one image does to the two output files, whatever was there before: an output
  image that exists is left as it is, and the label file is written anew.
\<close>

lemma process_image_keeps_image:
  assumes "process_image fs strict lf exts scene_dir per_image entry s = Inr s'"
    and "out_images s n = Some b"
  shows "out_images s' n = Some b"
proof -
  obtain iid fname w h where entry: "entry = (iid, fname, w, h)"
    by (cases entry) auto
  show ?thesis
  proof (cases "case resolve_image_path fs scene_dir fname exts of
                  None \<Rightarrow> True | Some p \<Rightarrow> \<not> fs_exists fs p")
    case True
    with assms show ?thesis
      unfolding entry by (auto simp: process_image_missing split: if_splits)
  next
    case False
    then obtain src where r: "resolve_image_path fs scene_dir fname exts = Some src" "fs_exists fs src"
      by (auto split: option.splits)
    show ?thesis
    proof (cases "map_of per_image iid")
      case None
      with r assms(1) show ?thesis
        unfolding entry by (simp add: process_image_def Let_def)
    next
      case (Some insts)
      let ?new = "pname scene_dir @ ''_'' @ pname src"
      let ?s1 = "if out_images s ?new = None
          then s\<lparr>out_images := (out_images s)(?new \<mapsto> fs_read fs src)\<rparr> else s"
      have k: "out_images ?s1 n = Some b"
        using assms(2) by auto
      from assms(1) obtain s2 w2 h2 lines where
        l: "process_instances fs strict lf src insts (?s1, w, h, []) = Inr (s2, w2, h2, lines)" and
        s': "s' = s2\<lparr>out_labels := (out_labels s2)(stem ?new @ ''.txt'' \<mapsto> lines),
                 st_images := st_images s2 + 1,
                 st_instances := st_instances s2 + length lines\<rparr>"
        unfolding entry process_image_resolved [OF r Some]
        by (auto split: sum.splits)
      from process_instances_frame [OF l] have "out_images s2 = out_images ?s1"
        by blast
      with k s' show ?thesis by simp
    qed
  qed
qed

text \<open>
  C2: the code does not keep the first-written pair. Two scene directories named
  \<^verbatim>\<open>sceneA\<close> both hold \<^verbatim>\<open>beauty.0001.png\<close>, so both images derive the output
  name \<^verbatim>\<open>sceneA_beauty.0001.png\<close>. The first scene alone writes the line of the
  car. After the run over both, the output image is the first one (bytes 1, the copy
  of the second is skipped), while the label file holds the line of the second image
  (the van, class 1) and not the line of the first: line 243 writes the label file
  without the test that guards the copy at line 202.
\<close>

theorem C2_label_file_overwritten:
  "main ex_fs False ''class'' [''.png''] [ex_scene_a] Map.empty Map.empty =
   Inr (\<lparr>classes = [(''car'', 0)], next_cid = 1, st_images = 1, st_instances = 1,
         st_skipped_instances = 0, st_scenes = 1,
         out_images = [''sceneA_beauty.0001.png'' \<mapsto> 1],
         out_labels = [''sceneA_beauty.0001.txt'' \<mapsto> [(0, 7 / 20, 1 / 2, 1 / 2, 3 / 5)]],
         printed = []\<rparr>,
        [(0, Some ''car'')]) \<and>
   main ex_fs False ''class'' [''.png''] [ex_scene_a, ex_scene_b] Map.empty Map.empty =
   Inr (\<lparr>classes = [(''car'', 0), (''van'', 1)], next_cid = 2, st_images = 2, st_instances = 2,
         st_skipped_instances = 0, st_scenes = 2,
         out_images = [''sceneA_beauty.0001.png'' \<mapsto> 1],
         out_labels = [''sceneA_beauty.0001.txt'' \<mapsto> [(1, 1 / 4, 1 / 4, 1 / 2, 1 / 2)]],
         printed = []\<rparr>,
        [(0, Some ''car''), (1, Some ''van'')])"
  by (simp add: ex_defs run_defs)

end
